theory Spec2Isabelle
  imports Complex_Main "HOL-Library.Sublist" "HOL-Library.Multiset"
begin

section \<open>JavaScript values\<close>

text \<open>
  The repository is JavaScript. A number is a real or the value NaN, which arithmetic
  propagates; rounding errors of the floating-point format are left out (arithmetic is
  exact). A string is a list of code units; the model covers the code units
  U+0000 to U+00FF, one \<^typ>\<open>char\<close> each. An object is the list of its own properties
  in insertion order. An array carries its elements and the named properties assigned to
  it. \<open>JNative k\<close> is the built-in object held by the member \<open>k\<close> of
  \<open>Object.prototype\<close>: the function \<open>Object\<close> for \<open>constructor\<close>, the prototype
  itself for \<open>__proto__\<close>, a method for the other names.
\<close>

datatype jsnum = NaN | Num real

datatype jsval =
    JUndefined
  | JNull
  | JBool bool
  | JNumber jsnum
  | JString string
  | JArray "jsval list" "(string \<times> jsval) list"
  | JObject "(string \<times> jsval) list"
  | JNative string

datatype error = TypeError | SyntaxError | PlanError

text \<open>ToBoolean, as used by \<open>!\<close>, \<open>||\<close> and \<open>if\<close>.\<close>

fun truthy :: "jsval \<Rightarrow> bool" where
  "truthy JUndefined = False"
| "truthy JNull = False"
| "truthy (JBool b) = b"
| "truthy (JNumber NaN) = False"
| "truthy (JNumber (Num r)) = (r \<noteq> 0)"
| "truthy (JString s) = (s \<noteq> [])"
| "truthy (JArray xs ps) = True"
| "truthy (JObject ps) = True"
| "truthy (JNative k) = True"

text \<open>
  The names that every plain object inherits from \<open>Object.prototype\<close>. A property read
  \<open>obj[key]\<close> on a plain object finds the object's own property first, then one of
  these, and is \<open>undefined\<close> otherwise.
\<close>

definition objectPrototypeKeys :: "string list" where
  "objectPrototypeKeys =
     [''constructor'', ''__defineGetter__'', ''__defineSetter__'', ''hasOwnProperty'',
      ''__lookupGetter__'', ''__lookupSetter__'', ''isPrototypeOf'',
      ''propertyIsEnumerable'', ''toString'', ''valueOf'', ''__proto__'',
      ''toLocaleString'']"

definition readPlain :: "(string \<times> jsval) list \<Rightarrow> string \<Rightarrow> jsval" where
  "readPlain props k =
     (case map_of props k of
        Some v \<Rightarrow> v
      | None \<Rightarrow> if k \<in> set objectPrototypeKeys then JNative k else JUndefined)"

text \<open>
  A read of one of the fixed names the code uses (\<open>weeks\<close>, \<open>week\<close>, \<open>topics\<close>,
  \<open>skills\<close>, ...): none of them is an array index, \<open>length\<close> or a member of a built-in
  prototype, so only own properties answer. Reading from \<open>null\<close> or \<open>undefined\<close>
  throws a TypeError; a primitive has no such property.
\<close>

fun getField :: "jsval \<Rightarrow> string \<Rightarrow> error + jsval" where
  "getField JUndefined k = Inl TypeError"
| "getField JNull k = Inl TypeError"
| "getField (JObject ps) k = Inr (case map_of ps k of Some v \<Rightarrow> v | None \<Rightarrow> JUndefined)"
| "getField (JArray xs ps) k = Inr (case map_of ps k of Some v \<Rightarrow> v | None \<Rightarrow> JUndefined)"
| "getField v k = Inr JUndefined"

text \<open>
  An assignment \<open>obj.k = v\<close>: an existing own property keeps its place, a new one goes
  last. On a primitive the assignment is dropped without an error (the files are
  CommonJS modules with no strict-mode directive); on \<open>null\<close> or \<open>undefined\<close> it
  throws.
\<close>

fun setProp :: "(string \<times> 'a) list \<Rightarrow> string \<Rightarrow> 'a \<Rightarrow> (string \<times> 'a) list" where
  "setProp [] k v = [(k, v)]"
| "setProp ((k', v') # ps) k v = (if k' = k then (k, v) # ps else (k', v') # setProp ps k v)"

fun setField :: "jsval \<Rightarrow> string \<Rightarrow> jsval \<Rightarrow> error + jsval" where
  "setField JUndefined k v = Inl TypeError"
| "setField JNull k v = Inl TypeError"
| "setField (JObject ps) k v = Inr (JObject (setProp ps k v))"
| "setField (JArray xs ps) k v = Inr (JArray xs (setProp ps k v))"
| "setField w k v = Inr w"

section \<open>Strings\<close>

text \<open>
  \<open>\s\<close> and \<open>trim\<close> share one set of white space; below U+0100 it is TAB, LF, VT, FF,
  CR, SPACE and NO-BREAK SPACE. \<open>\w\<close> is \<open>[A-Za-z0-9_]\<close>. \<open>toLowerCase\<close> maps
  \<open>A-Z\<close> and the capital letters U+00C0 to U+00DE (but not the sign U+00D7) 32 places up.
\<close>

definition isSpace :: "char \<Rightarrow> bool" where
  "isSpace c = (of_char c \<in> {9, 10, 11, 12, 13, 32, 160 :: nat})"

definition isWordChar :: "char \<Rightarrow> bool" where
  "isWordChar c =
     (let n = of_char c :: nat
      in (48 \<le> n \<and> n \<le> 57) \<or> (65 \<le> n \<and> n \<le> 90) \<or> n = 95 \<or> (97 \<le> n \<and> n \<le> 122))"

definition toLowerChar :: "char \<Rightarrow> char" where
  "toLowerChar c =
     (let n = of_char c :: nat
      in if (65 \<le> n \<and> n \<le> 90) \<or> (192 \<le> n \<and> n \<le> 222 \<and> n \<noteq> 215)
         then char_of (n + 32) else c)"

definition toLowerCase :: "string \<Rightarrow> string" where
  "toLowerCase s = map toLowerChar s"

definition trim :: "string \<Rightarrow> string" where
  "trim s = rev (dropWhile isSpace (rev (dropWhile isSpace s)))"

text \<open>\<open>.replace(/[^\/\w\s-]/g, '')\<close>: a character stays when it is a slash, a word
  character, white space or a hyphen.\<close>

definition keptChar :: "char \<Rightarrow> bool" where
  "keptChar c = (c = CHR ''/'' \<or> isWordChar c \<or> isSpace c \<or> c = CHR ''-'')"

text \<open>\<open>.replace(/\s+/g, ' ')\<close>: every maximal run of white space becomes one space. The
  flag says that the character before was white space.\<close>

primrec collapseSpaces :: "bool \<Rightarrow> string \<Rightarrow> string" where
  "collapseSpaces inRun [] = []"
| "collapseSpaces inRun (c # cs) =
     (if isSpace c
      then (if inRun then collapseSpaces True cs else CHR '' '' # collapseSpaces True cs)
      else c # collapseSpaces False cs)"

text \<open>\<open>String.prototype.includes\<close>: the pattern occurs somewhere in the string.\<close>

primrec includesStr :: "string \<Rightarrow> string \<Rightarrow> bool" where
  "includesStr [] p = (p = [])"
| "includesStr (c # cs) p = (prefix p (c # cs) \<or> includesStr cs p)"

section \<open>Skill canonicalizer (functions/utils.js)\<close>

text \<open>
  The alias table \<open>skill_aliases.json\<close> is not among the sources; it is a parameter, the
  list of its own properties, from raw spellings to canonical names. The table is a plain
  object, so \<open>skillAliases[cleaned]\<close> also finds the members of \<open>Object.prototype\<close>.
\<close>

definition cleanName :: "string \<Rightarrow> string" where
  "cleanName name = collapseSpaces False (filter keptChar (toLowerCase (trim name)))"

definition canonicalizeSkillName :: "(string \<times> string) list \<Rightarrow> jsval \<Rightarrow> jsval" where
  "canonicalizeSkillName skillAliases name =
     (case name of
        JString s \<Rightarrow>
          (let cleaned = cleanName s;
               alias = readPlain (map (\<lambda>(k, v). (k, JString v)) skillAliases) cleaned
           in if truthy alias then alias else JString cleaned)
      | _ \<Rightarrow> JString [])"

text \<open>
  What is assumed of the alias table where a property needs it: no value is empty, and no
  value is the name of a member of \<open>Object.prototype\<close>.
\<close>

definition plainAliases :: "(string \<times> string) list \<Rightarrow> bool" where
  "plainAliases skillAliases =
     list_all (\<lambda>(k, v). v \<noteq> [] \<and> v \<notin> set objectPrototypeKeys) skillAliases"

section \<open>Numbers\<close>

text \<open>Arithmetic on numbers: NaN is contagious. \<open>Math.round\<close> rounds halves up. The
  model has no infinities: a zero divisor, which the code below never reaches, gives NaN
  here.\<close>

fun jsAdd :: "jsnum \<Rightarrow> jsnum \<Rightarrow> jsnum" where
  "jsAdd (Num a) (Num b) = Num (a + b)"
| "jsAdd a b = NaN"

fun jsSub :: "jsnum \<Rightarrow> jsnum \<Rightarrow> jsnum" where
  "jsSub (Num a) (Num b) = Num (a - b)"
| "jsSub a b = NaN"

fun jsMul :: "jsnum \<Rightarrow> jsnum \<Rightarrow> jsnum" where
  "jsMul (Num a) (Num b) = Num (a * b)"
| "jsMul a b = NaN"

fun jsDiv :: "jsnum \<Rightarrow> jsnum \<Rightarrow> jsnum" where
  "jsDiv (Num a) (Num b) = (if b = 0 then NaN else Num (a / b))"
| "jsDiv a b = NaN"

fun jsSqrt :: "jsnum \<Rightarrow> jsnum" where
  "jsSqrt (Num a) = (if a < 0 then NaN else Num (sqrt a))"
| "jsSqrt NaN = NaN"

fun jsRound :: "jsnum \<Rightarrow> jsnum" where
  "jsRound (Num a) = Num (of_int \<lfloor>a + 1 / 2\<rfloor>)"
| "jsRound NaN = NaN"

text \<open>\<open>Math.max\<close> and \<open>Math.min\<close> of two numbers: NaN when either is NaN.\<close>

fun jsMax :: "jsnum \<Rightarrow> jsnum \<Rightarrow> jsnum" where
  "jsMax (Num a) (Num b) = Num (max a b)"
| "jsMax a b = NaN"

fun jsMin :: "jsnum \<Rightarrow> jsnum \<Rightarrow> jsnum" where
  "jsMin (Num a) (Num b) = Num (min a b)"
| "jsMin a b = NaN"

text \<open>\<open>x > 0\<close> on numbers: false for NaN.\<close>

fun jsPositive :: "jsnum \<Rightarrow> bool" where
  "jsPositive (Num a) = (0 < a)"
| "jsPositive NaN = False"

text \<open>\<open>a >= b\<close> on numbers: false when either is NaN.\<close>

fun jsGe :: "jsnum \<Rightarrow> jsnum \<Rightarrow> bool" where
  "jsGe (Num a) (Num b) = (b \<le> a)"
| "jsGe a b = False"

section \<open>Similarity engine (functions/utils.js)\<close>

text \<open>
  A skill vector is a plain object from skill names to weights: the list of its own
  properties. \<open>new Set\<close> keeps the first occurrence of each key. (The language lists
  keys that look like array indices first; the sums below do not depend on the order.)
\<close>

type_synonym skillVector = "(string \<times> real) list"

definition setAdd :: "'a list \<Rightarrow> 'a \<Rightarrow> 'a list" where
  "setAdd s x = (if x \<in> set s then s else s @ [x])"

definition newSet :: "'a list \<Rightarrow> 'a list" where
  "newSet xs = foldl setAdd [] xs"

definition objectKeys :: "(string \<times> 'a) list \<Rightarrow> string list" where
  "objectKeys props = newSet (map fst props)"

text \<open>
  \<open>vector[key] || 0\<close>, as a number: the own weight when it is not zero, zero for an absent
  key. A key that the vector does not own but inherits (\<open>constructor\<close>, \<open>toString\<close>,
  ...) yields a built-in object, which is truthy, so \<open>|| 0\<close> keeps it, and the
  multiplications turn it into NaN.
\<close>

definition weightAt :: "skillVector \<Rightarrow> string \<Rightarrow> jsnum" where
  "weightAt vec key =
     (case readPlain (map (\<lambda>(k, w). (k, JNumber (Num w))) vec) key of
        JNumber n \<Rightarrow> (if truthy (JNumber n) then n else Num 0)
      | JNative k \<Rightarrow> NaN
      | _ \<Rightarrow> Num 0)"

text \<open>The own weight of a key, 0 when the vector has no such key: what \<open>weightAt\<close>
  is at a key that is not inherited (lemma \<open>weightAt_plain\<close> below).\<close>

definition ownWeight :: "skillVector \<Rightarrow> string \<Rightarrow> real" where
  "ownWeight vec key = (case map_of vec key of Some w \<Rightarrow> w | None \<Rightarrow> 0)"

text \<open>The body of the \<open>for\<close> loop, on the accumulators \<open>(dotProduct, magnitudeA,
  magnitudeB)\<close>.\<close>

definition cosineStep ::
  "skillVector \<Rightarrow> skillVector \<Rightarrow> string \<Rightarrow> jsnum \<times> jsnum \<times> jsnum \<Rightarrow> jsnum \<times> jsnum \<times> jsnum" where
  "cosineStep vectorA vectorB key acc =
     (case acc of (dotProduct, magnitudeA, magnitudeB) \<Rightarrow>
        (let valueA = weightAt vectorA key;
             valueB = weightAt vectorB key
         in (jsAdd dotProduct (jsMul valueA valueB),
             jsAdd magnitudeA (jsMul valueA valueA),
             jsAdd magnitudeB (jsMul valueB valueB))))"

definition cosineSimilarity :: "skillVector \<Rightarrow> skillVector \<Rightarrow> jsnum" where
  "cosineSimilarity vectorA vectorB =
     (let allKeys = newSet (objectKeys vectorA @ objectKeys vectorB);
          totals = fold (cosineStep vectorA vectorB) allKeys (Num 0, Num 0, Num 0);
          dotProduct = fst totals;
          magnitudeA = jsSqrt (fst (snd totals));
          magnitudeB = jsSqrt (snd (snd totals))
      in if magnitudeA = Num 0 \<or> magnitudeB = Num 0 then Num 0
         else jsDiv dotProduct (jsMul magnitudeA magnitudeB))"

text \<open>
  \<open>key.length > 0\<close> and the conversion of a value to a property key, for the two kinds of
  value that \<open>canonicalizeSkillName\<close> returns, a string or an inherited member (the
  functions say nothing about other values). A built-in function has its number of
  parameters as \<open>length\<close> and prints as \<open>function f() { [native code] }\<close>; the prototype
  object has no \<open>length\<close>, so that \<open>undefined > 0\<close> is false, and prints as
  \<open>[object Object]\<close>.
\<close>

definition nativeLength :: "string \<Rightarrow> nat option" where
  "nativeLength k =
     (if k = ''__proto__'' then None
      else if k \<in> set [''__defineGetter__'', ''__defineSetter__''] then Some 2
      else if k \<in> set [''toString'', ''valueOf'', ''toLocaleString''] then Some 0
      else Some 1)"

definition nativeToString :: "string \<Rightarrow> string" where
  "nativeToString k =
     (if k = ''__proto__'' then ''[object Object]''
      else ''function '' @ (if k = ''constructor'' then ''Object'' else k)
           @ ''() { [native code] }'')"

fun hasPositiveLength :: "jsval \<Rightarrow> bool" where
  "hasPositiveLength (JString s) = (s \<noteq> [])"
| "hasPositiveLength (JNative k) = (case nativeLength k of Some n \<Rightarrow> 0 < n | None \<Rightarrow> False)"

fun propertyKey :: "jsval \<Rightarrow> string" where
  "propertyKey (JString s) = s"
| "propertyKey (JNative k) = nativeToString k"

text \<open>
  An assignment \<open>vector[key] = w\<close> of a number to a plain object: it creates or updates
  the own property, except for the key \<open>__proto__\<close>, where it calls the inherited setter,
  which ignores a number and leaves the object as it is.
\<close>

definition assignWeight :: "skillVector \<Rightarrow> string \<Rightarrow> real \<Rightarrow> skillVector" where
  "assignWeight vec key w = (if key = ''__proto__'' then vec else setProp vec key w)"

record roleSkill =
  name :: string
  weight :: "real option"

definition normalizeSkills :: "(string \<times> string) list \<Rightarrow> string list \<Rightarrow> skillVector" where
  "normalizeSkills skillAliases skills =
     fold (\<lambda>skill normalized.
             (let key = canonicalizeSkillName skillAliases (JString skill)
              in if hasPositiveLength key then assignWeight normalized (propertyKey key) 1
                 else normalized))
          skills []"

text \<open>\<open>skill.weight || 1.0\<close>: an absent weight and the weight 0 both become 1.\<close>

definition weightOrOne :: "real option \<Rightarrow> real" where
  "weightOrOne w = (case w of Some x \<Rightarrow> (if x = 0 then 1 else x) | None \<Rightarrow> 1)"

definition roleSkillsVector :: "(string \<times> string) list \<Rightarrow> roleSkill list \<Rightarrow> skillVector" where
  "roleSkillsVector skillAliases roleSkills =
     fold (\<lambda>skill vec.
             assignWeight vec
               (propertyKey (canonicalizeSkillName skillAliases (JString (name skill))))
               (weightOrOne (weight skill)))
          roleSkills []"

text \<open>An argument that may be \<open>null\<close> or \<open>undefined\<close> is an option: \<open>None\<close> is
  the absent array.\<close>

definition calculateFitScore ::
  "(string \<times> string) list \<Rightarrow> string list option \<Rightarrow> roleSkill list option \<Rightarrow> jsnum" where
  "calculateFitScore skillAliases userSkills roleSkills =
     (case (userSkills, roleSkills) of
        (Some us, Some rs) \<Rightarrow>
          if us = [] \<or> rs = [] then Num 0
          else jsRound (jsMul (cosineSimilarity (normalizeSkills skillAliases us)
                                 (roleSkillsVector skillAliases rs)) (Num 100))
      | _ \<Rightarrow> Num 0)"

definition calculateOverlapRatio ::
  "(string \<times> string) list \<Rightarrow> string list option \<Rightarrow> roleSkill list option \<Rightarrow> real" where
  "calculateOverlapRatio skillAliases userSkills roleSkills =
     (case (userSkills, roleSkills) of
        (Some us, Some rs) \<Rightarrow>
          if us = [] \<or> rs = [] then 0
          else
            (let normalizedUserSkills = map (\<lambda>s. canonicalizeSkillName skillAliases (JString s)) us;
                 normalizedRoleSkills =
                   map (\<lambda>s. canonicalizeSkillName skillAliases (JString (name s))) rs;
                 overlap = length (filter (\<lambda>skill. skill \<in> set normalizedRoleSkills)
                                     normalizedUserSkills)
             in real overlap / real (length normalizedRoleSkills))
      | _ \<Rightarrow> 0)"

definition calculateGapSkills ::
  "(string \<times> string) list \<Rightarrow> string list option \<Rightarrow> roleSkill list option \<Rightarrow> jsval list" where
  "calculateGapSkills skillAliases userSkills roleSkills =
     (case (userSkills, roleSkills) of
        (Some us, Some rs) \<Rightarrow>
          (let normalizedUserSkills = map (\<lambda>s. canonicalizeSkillName skillAliases (JString s)) us;
               normalizedRoleSkills =
                 map (\<lambda>s. canonicalizeSkillName skillAliases (JString (name s))) rs
           in filter (\<lambda>skill. skill \<notin> set normalizedUserSkills) normalizedRoleSkills)
      | _ \<Rightarrow> [])"

definition calculateOverlapSkills ::
  "(string \<times> string) list \<Rightarrow> string list option \<Rightarrow> roleSkill list option \<Rightarrow> jsval list" where
  "calculateOverlapSkills skillAliases userSkills roleSkills =
     (case (userSkills, roleSkills) of
        (Some us, Some rs) \<Rightarrow>
          (let normalizedUserSkills = map (\<lambda>s. canonicalizeSkillName skillAliases (JString s)) us;
               normalizedRoleSkills =
                 map (\<lambda>s. canonicalizeSkillName skillAliases (JString (name s))) rs
           in filter (\<lambda>skill. skill \<in> set normalizedRoleSkills) normalizedUserSkills)
      | _ \<Rightarrow> [])"

text \<open>
  \<open>calculateInterestMatch\<close>: 1 when some interest, lower-cased and trimmed, occurs in
  the lower-cased text "sector title" of the role.
\<close>

record role =
  roleId :: string
  title :: string
  sector :: string
  skills :: "roleSkill list"

definition calculateInterestMatch :: "string list option \<Rightarrow> role option \<Rightarrow> real" where
  "calculateInterestMatch userInterests r =
     (case (userInterests, r) of
        (Some interests, Some rl) \<Rightarrow>
          (let normalizedInterests = map (\<lambda>i. trim (toLowerCase i)) interests;
               roleText = toLowerCase (sector rl @ '' '' @ title rl);
               hasMatch = list_ex (\<lambda>interest. includesStr roleText interest) normalizedInterests
           in if hasMatch then 1 else 0)
      | _ \<Rightarrow> 0)"

definition calculateEnhancedFitScore ::
  "(string \<times> string) list \<Rightarrow> string list option \<Rightarrow> roleSkill list option
     \<Rightarrow> string list option \<Rightarrow> role option \<Rightarrow> jsnum" where
  "calculateEnhancedFitScore skillAliases userSkills roleSkills userInterests r =
     (let skillsScore = jsMul (calculateFitScore skillAliases userSkills roleSkills) (Num (6 / 10));
          overlapScore =
            Num (calculateOverlapRatio skillAliases userSkills roleSkills * 100 * (2 / 10));
          interestScore = Num (calculateInterestMatch userInterests r * 100 * (2 / 10))
      in jsRound (jsAdd (jsAdd skillsScore overlapScore) interestScore))"

section \<open>Role ranker (getTopRoleMatches)\<close>

text \<open>
  The catalog \<open>roles.json\<close> is not among the sources: the list \<open>Object.values(roles)\<close>
  is a parameter, and so is the alias table. The profile is read at \<open>skills\<close> and
  \<open>interests\<close>, two arrays of strings. A match is the role with three more fields.
\<close>

record profile =
  profileSkills :: "string list"
  profileInterests :: "string list"

record roleMatch = role +
  score :: jsnum
  overlapSkills :: "jsval list"
  gapSkills :: "jsval list"

definition scoreRole :: "(string \<times> string) list \<Rightarrow> profile \<Rightarrow> role \<Rightarrow> roleMatch" where
  "scoreRole skillAliases prof rl =
     (let normalizedRoleSkills =
            map (\<lambda>s. canonicalizeSkillName skillAliases (JString (name s))) (skills rl);
          normalizedProfileSkills =
            map (\<lambda>s. canonicalizeSkillName skillAliases (JString s)) (profileSkills prof)
      in \<lparr>roleId = roleId rl, title = title rl, sector = sector rl, skills = skills rl,
          score = calculateEnhancedFitScore skillAliases (Some (profileSkills prof))
                    (Some (skills rl)) (Some (profileInterests prof)) (Some rl),
          overlapSkills = filter (\<lambda>skill. skill \<in> set normalizedRoleSkills)
                            normalizedProfileSkills,
          gapSkills = filter (\<lambda>skill. skill \<notin> set normalizedProfileSkills)
                        normalizedRoleSkills\<rparr>)"

text \<open>
  \<open>.sort((a, b) => b.score - a.score)\<close>. The sort of the language is stable, and it
  treats a comparator result that is not positive (zero, negative or NaN) as "keep
  \<open>a\<close> before \<open>b\<close>" when \<open>a\<close> came first. The model is the stable insertion sort
  with this comparator; when no score is NaN the comparator is a consistent order and
  every stable sort returns the same array.
\<close>

definition sortsAfter :: "roleMatch \<Rightarrow> roleMatch \<Rightarrow> bool" where
  "sortsAfter a b = jsPositive (jsSub (score b) (score a))"

primrec insertMatch :: "roleMatch \<Rightarrow> roleMatch list \<Rightarrow> roleMatch list" where
  "insertMatch a [] = [a]"
| "insertMatch a (b # bs) = (if sortsAfter a b then b # insertMatch a bs else a # b # bs)"

definition sortMatches :: "roleMatch list \<Rightarrow> roleMatch list" where
  "sortMatches ms = foldr insertMatch ms []"

text \<open>\<open>.slice(0, count)\<close> for an integer count \<open>cnt\<close>: a negative one counts from
  the end.\<close>

definition sliceTo :: "'a list \<Rightarrow> int \<Rightarrow> 'a list" where
  "sliceTo xs cnt =
     (if cnt < 0 then take (nat (int (length xs) + cnt)) xs else take (nat cnt) xs)"

definition getTopRoleMatches ::
  "(string \<times> string) list \<Rightarrow> role list \<Rightarrow> profile \<Rightarrow> int \<Rightarrow> roleMatch list" where
  "getTopRoleMatches skillAliases roles prof cnt =
     (let roleScores = map (scoreRole skillAliases prof) roles
      in sliceTo (sortMatches roleScores) cnt)"

section \<open>Profile sanitizer (functions/utils.js)\<close>

text \<open>
  \<open>sanitizeSkill\<close>: the canonical form, cut to 50 code units. When the canonical form is
  not a string (the table lookup found an inherited member), it has no method
  \<open>substring\<close> and the call throws a TypeError.
\<close>

definition sanitizeSkill :: "(string \<times> string) list \<Rightarrow> jsval \<Rightarrow> error + string" where
  "sanitizeSkill skillAliases skill =
     (case skill of
        JString s \<Rightarrow>
          (case canonicalizeSkillName skillAliases skill of
             JString c \<Rightarrow> Inr (take 50 c)
           | _ \<Rightarrow> Inl TypeError)
      | _ \<Rightarrow> Inr [])"

text \<open>\<open>.map(f)\<close> with a callback that may throw: the first error ends the loop.\<close>

primrec mapE :: "('a \<Rightarrow> error + 'b) \<Rightarrow> 'a list \<Rightarrow> error + 'b list" where
  "mapE f [] = Inr []"
| "mapE f (x # xs) =
     (case f x of
        Inl e \<Rightarrow> Inl e
      | Inr y \<Rightarrow> (case mapE f xs of Inl e \<Rightarrow> Inl e | Inr ys \<Rightarrow> Inr (y # ys)))"

text \<open>\<open>.map(sanitizeSkill).filter(s => s.length > 0).slice(0, limit)\<close>.\<close>

definition cleanEntries :: "(string \<times> string) list \<Rightarrow> nat \<Rightarrow> jsval list \<Rightarrow> error + jsval" where
  "cleanEntries skillAliases limit xs =
     (case mapE (sanitizeSkill skillAliases) xs of
        Inl e \<Rightarrow> Inl e
      | Inr ys \<Rightarrow> Inr (JArray (map JString (take limit (filter (\<lambda>s. s \<noteq> []) ys))) []))"

text \<open>A read \<open>cleaned.k\<close> of the copy \<open>{ ...profile }\<close>, an object with the own
  properties of the profile.\<close>

definition fieldOf :: "(string \<times> jsval) list \<Rightarrow> string \<Rightarrow> jsval" where
  "fieldOf props k = (case map_of props k of Some v \<Rightarrow> v | None \<Rightarrow> JUndefined)"

definition cleanArrayField ::
  "(string \<times> string) list \<Rightarrow> string \<Rightarrow> nat \<Rightarrow> (string \<times> jsval) list
     \<Rightarrow> error + (string \<times> jsval) list" where
  "cleanArrayField skillAliases k limit cleaned =
     (case fieldOf cleaned k of
        JArray xs ps \<Rightarrow>
          (case cleanEntries skillAliases limit xs of
             Inl e \<Rightarrow> Inl e
           | Inr a \<Rightarrow> Inr (setProp cleaned k a))
      | _ \<Rightarrow> Inr cleaned)"

definition clampWeeklyTime :: "(string \<times> jsval) list \<Rightarrow> (string \<times> jsval) list" where
  "clampWeeklyTime cleaned =
     (case fieldOf cleaned ''weeklyTime'' of
        JNumber n \<Rightarrow> setProp cleaned ''weeklyTime'' (JNumber (jsMin (jsMax n (Num 1)) (Num 40)))
      | _ \<Rightarrow> cleaned)"

definition coerceEnum ::
  "string \<Rightarrow> string list \<Rightarrow> string \<Rightarrow> (string \<times> jsval) list \<Rightarrow> (string \<times> jsval) list" where
  "coerceEnum k valid dflt cleaned =
     (if fieldOf cleaned k \<in> set (map JString valid) then cleaned
      else setProp cleaned k (JString dflt))"

definition validEducation :: "string list" where
  "validEducation = [''12th'', ''Diploma'', ''UG'', ''PG'', ''Other'']"

definition validBudget :: "string list" where
  "validBudget = [''free'', ''low'', ''any'']"

definition validLanguage :: "string list" where
  "validLanguage = [''en'', ''hi'']"

definition validateAndCleanProfile ::
  "(string \<times> string) list \<Rightarrow> (string \<times> jsval) list \<Rightarrow> error + (string \<times> jsval) list" where
  "validateAndCleanProfile skillAliases prof =
     (case cleanArrayField skillAliases ''skills'' 20 prof of
        Inl e \<Rightarrow> Inl e
      | Inr cleaned1 \<Rightarrow>
          (case cleanArrayField skillAliases ''interests'' 10 cleaned1 of
             Inl e \<Rightarrow> Inl e
           | Inr cleaned2 \<Rightarrow>
               Inr (coerceEnum ''language'' validLanguage ''en''
                     (coerceEnum ''budget'' validBudget ''free''
                       (coerceEnum ''education'' validEducation ''Other''
                         (clampWeeklyTime cleaned2))))))"

section \<open>Plan parser (parseLearningPlan)\<close>

text \<open>
  The two regular expressions, \<open>```json\s*([\s\S]*?)\s*```\<close> and the same without
  \<open>json\<close>. A match starts at the leftmost opener that has a closing fence after it.
  There the first \<open>\s*\<close> takes all the white space it finds, and the lazy group grows
  one character at a time until the rest of the text is white space followed by the
  fence. \<open>matchFence\<close> returns the group, or \<open>None\<close> when nothing matches.
\<close>

primrec lazyUntilFence :: "string \<Rightarrow> string option" where
  "lazyUntilFence [] = None"
| "lazyUntilFence (c # cs) =
     (if prefix ''```'' (dropWhile isSpace (c # cs)) then Some []
      else map_option (Cons c) (lazyUntilFence cs))"

primrec matchFence :: "string \<Rightarrow> string \<Rightarrow> string option" where
  "matchFence opener [] = None"
| "matchFence opener (c # cs) =
     (case (if prefix opener (c # cs)
            then lazyUntilFence (dropWhile isSpace (drop (length opener) (c # cs)))
            else None) of
        Some captured \<Rightarrow> Some captured
      | None \<Rightarrow> matchFence opener cs)"

primrec indexOf :: "string \<Rightarrow> char \<Rightarrow> nat option" where
  "indexOf [] ch = None"
| "indexOf (c # cs) ch = (if c = ch then Some 0 else map_option Suc (indexOf cs ch))"

definition lastIndexOf :: "string \<Rightarrow> char \<Rightarrow> nat option" where
  "lastIndexOf s ch =
     (case indexOf (rev s) ch of None \<Rightarrow> None | Some i \<Rightarrow> Some (length s - 1 - i))"

text \<open>The text handed to \<open>JSON.parse\<close>: the fenced block, else the text from the first
  \<open>{\<close> to the last \<open>}\<close>, else the whole response; trimmed.\<close>

definition extractJsonString :: "string \<Rightarrow> string" where
  "extractJsonString aiResponse =
     (let jsonMatch =
            (case matchFence ''```json'' aiResponse of
               Some m \<Rightarrow> Some m
             | None \<Rightarrow> matchFence ''```'' aiResponse);
          jsonString =
            (case jsonMatch of
               Some captured \<Rightarrow> captured
             | None \<Rightarrow>
                 (case (indexOf aiResponse CHR ''{'', lastIndexOf aiResponse CHR ''}'') of
                    (Some firstIdx, Some lastIdx) \<Rightarrow>
                      if lastIdx > firstIdx
                      then take (lastIdx + 1 - firstIdx) (drop firstIdx aiResponse)
                      else aiResponse
                  | _ \<Rightarrow> aiResponse))
      in trim jsonString)"

definition bindE :: "error + 'a \<Rightarrow> ('a \<Rightarrow> error + 'b) \<Rightarrow> error + 'b" where
  "bindE m f = (case m of Inl e \<Rightarrow> Inl e | Inr x \<Rightarrow> f x)"

fun isArray :: "jsval \<Rightarrow> bool" where
  "isArray (JArray xs ps) = True"
| "isArray v = False"

text \<open>The loop \<open>while (plan.weeks.length < 4) plan.weeks.push({ week: plan.weeks.length + 1 })\<close>.\<close>

function padWeeks :: "jsval list \<Rightarrow> jsval list" where
  "padWeeks ws =
     (if length ws < 4
      then padWeeks (ws @ [JObject [(''week'', JNumber (Num (real (length ws + 1))))]])
      else ws)"
  by pat_completeness auto
termination
  by (relation "measure (\<lambda>ws. 4 - length ws)") auto

declare padWeeks.simps [simp del]

text \<open>
  The callback of \<open>plan.weeks.forEach\<close>, on the entry \<open>week\<close> at position \<open>index\<close>:
  each test reads a field (which throws on \<open>null\<close>), each assignment writes one (and is
  dropped on a primitive).
\<close>

definition defaultField ::
  "jsval \<Rightarrow> string \<Rightarrow> (jsval \<Rightarrow> bool) \<Rightarrow> jsval \<Rightarrow> error + jsval" where
  "defaultField week k missing dflt =
     bindE (getField week k) (\<lambda>v. if missing v then setField week k dflt else Inr week)"

definition validateWeek :: "nat \<Rightarrow> jsval \<Rightarrow> error + jsval" where
  "validateWeek index week =
     bindE (defaultField week ''week''
              (\<lambda>v. \<not> truthy v \<or> v \<noteq> JNumber (Num (real (index + 1))))
              (JNumber (Num (real (index + 1))))) (\<lambda>week1.
     bindE (defaultField week1 ''topics'' (\<lambda>v. \<not> truthy v \<or> \<not> isArray v)
              (JArray [JString ''Topics to be determined''] [])) (\<lambda>week2.
     bindE (defaultField week2 ''practice'' (\<lambda>v. \<not> truthy v \<or> \<not> isArray v)
              (JArray [JString ''Practice activities to be determined''] [])) (\<lambda>week3.
     bindE (defaultField week3 ''assessment'' (\<lambda>v. \<not> truthy v)
              (JString ''Assessment to be determined'')) (\<lambda>week4.
     defaultField week4 ''project'' (\<lambda>v. \<not> truthy v)
              (JString ''Project to be determined'')))))"

text \<open>The \<open>try\<close> block after \<open>JSON.parse\<close>. A slice is a fresh array, without the named
  properties of the array it is taken from.\<close>

definition repairPlan :: "jsval \<Rightarrow> error + jsval" where
  "repairPlan plan =
     bindE (getField plan ''weeks'') (\<lambda>weeks.
       if \<not> truthy weeks \<or> \<not> isArray weeks then Inl PlanError
       else
         (case weeks of
            JArray ws wps \<Rightarrow>
              (let sized = (if length ws < 4 then (padWeeks ws, wps)
                            else if length ws > 4 then (take 4 ws, [])
                            else (ws, wps))
               in bindE (mapE (\<lambda>(index, week). validateWeek index week)
                           (enumerate 0 (fst sized))) (\<lambda>validated.
                  setField plan ''weeks'' (JArray validated (snd sized))))
          | _ \<Rightarrow> Inl PlanError))"

definition fallbackWeek :: "nat \<Rightarrow> string \<Rightarrow> string \<Rightarrow> string \<Rightarrow> string \<Rightarrow> jsval" where
  "fallbackWeek n topics practice assessment project =
     JObject [(''week'', JNumber (Num (real n))),
              (''topics'', JArray [JString topics] []),
              (''practice'', JArray [JString practice] []),
              (''assessment'', JString assessment),
              (''project'', JString project)]"

definition fallbackPlan :: jsval where
  "fallbackPlan =
     JObject [(''weeks'', JArray
       [fallbackWeek 1 ''Basic concepts and fundamentals'' ''Hands-on exercises and tutorials''
          ''Knowledge check quiz'' ''Simple introductory project'',
        fallbackWeek 2 ''Intermediate concepts and techniques''
          ''Practical exercises and case studies'' ''Skills assessment''
          ''Intermediate level project'',
        fallbackWeek 3 ''Advanced concepts and best practices''
          ''Complex exercises and real-world scenarios'' ''Advanced skills test''
          ''Advanced level project'',
        fallbackWeek 4 ''Integration and real-world application''
          ''Final project preparation'' ''Final project review'' ''Capstone project''] [])]"

text \<open>
  \<open>JSON.parse\<close> is built in; it is the parameter \<open>jsonParse\<close>, which returns the parsed
  value or the SyntaxError it throws. Every error of the \<open>try\<close> block ends in the
  \<open>catch\<close> block, which returns the fallback plan.
\<close>

definition parseLearningPlan :: "(string \<Rightarrow> error + jsval) \<Rightarrow> string \<Rightarrow> jsval" where
  "parseLearningPlan jsonParse aiResponse =
     (case bindE (jsonParse (extractJsonString aiResponse)) repairPlan of
        Inr plan \<Rightarrow> plan
      | Inl e \<Rightarrow> fallbackPlan)"

section \<open>Failure classification of /api/recommend\<close>

text \<open>The \<open>catch\<close> block of the handler: the status code chosen from the message.\<close>

definition classifyStatus :: "string \<Rightarrow> nat" where
  "classifyStatus message =
     (if includesStr message ''API key'' then 500
      else if includesStr message ''quota'' then 429
      else if includesStr message ''timeout'' then 408
      else 500)"

section \<open>Properties\<close>

subsection \<open>Strings\<close>

lemma includesStr_sublist: "includesStr s p \<longleftrightarrow> sublist p s"
  by (induction s) (auto simp: sublist_Cons_right)

lemma toLowerChar_idem: "toLowerChar (toLowerChar c) = toLowerChar c"
  unfolding toLowerChar_def Let_def by auto

lemma collapseSpaces_idem: "collapseSpaces f (collapseSpaces f zs) = collapseSpaces f zs"
  by (induction zs arbitrary: f) (auto simp: isSpace_def)

lemma collapseSpaces_set:
  "c \<in> set (collapseSpaces f zs) \<Longrightarrow> c = CHR '' '' \<or> (c \<in> set zs \<and> \<not> isSpace c)"
  by (induction zs arbitrary: f) (auto split: if_splits)

text \<open>What cleaning leaves: kept characters, already in lower case.\<close>

lemma cleanName_chars:
  assumes "c \<in> set (cleanName s)"
  shows "keptChar c \<and> toLowerChar c = c"
proof -
  from assms have "c = CHR '' '' \<or>
      (c \<in> set (filter keptChar (toLowerCase (trim s))) \<and> \<not> isSpace c)"
    unfolding cleanName_def by (rule collapseSpaces_set)
  then show ?thesis
  proof
    assume "c = CHR '' ''"
    then show ?thesis by (simp add: keptChar_def isSpace_def toLowerChar_def)
  next
    assume "c \<in> set (filter keptChar (toLowerCase (trim s))) \<and> \<not> isSpace c"
    then show ?thesis by (auto simp: toLowerCase_def toLowerChar_idem)
  qed
qed

text \<open>Cleaning a cleaned name again only trims it: when there is nothing to trim, the
  name is a fixed point.\<close>

lemma cleanName_fixed:
  assumes "trim (cleanName s) = cleanName s"
  shows "cleanName (cleanName s) = cleanName s"
proof -
  have l: "toLowerCase (cleanName s) = cleanName s"
    unfolding toLowerCase_def by (rule map_idI) (simp add: cleanName_chars)
  have k: "filter keptChar (cleanName s) = cleanName s"
    by (simp add: cleanName_chars)
  have "cleanName (cleanName s) = collapseSpaces False (cleanName s)"
    by (subst (1) cleanName_def) (simp add: assms l k)
  also have "\<dots> = cleanName s"
    unfolding cleanName_def by (rule collapseSpaces_idem)
  finally show ?thesis .
qed

lemma readPlain_alias_string:
  "readPlain (map (\<lambda>(k, v). (k, JString v)) T) c = JString y \<Longrightarrow> (c, y) \<in> set T"
  by (auto simp: readPlain_def map_of_map split: option.splits if_splits dest!: map_of_SomeD)

subsection \<open>Canonicalization\<close>

text \<open>
  C2 fails on the code. With an empty alias table, the name "! a" is trimmed first and
  loses its "!" afterwards, so the token returned is " a", with a leading space, although
  the function trims its input and a canonical token has internal spaces only;
  canonicalizing " a" gives "a", so canonicalization is not idempotent here.
\<close>

theorem canonicalizeSkillName_not_idempotent:
  "canonicalizeSkillName [] (JString ''! a'') = JString '' a'' \<and>
   canonicalizeSkillName [] (JString '' a'') = JString ''a'' \<and>
   canonicalizeSkillName [] (canonicalizeSkillName [] (JString ''! a''))
     \<noteq> canonicalizeSkillName [] (JString ''! a'')"
  by code_simp

text \<open>
  Where canonicalization is idempotent all the same. Let every value of the alias table
  be a fixed point of canonicalization. When the canonical form of a string \<open>x\<close> is a
  string \<open>y\<close> that neither begins nor ends with white space, canonicalizing \<open>y\<close>
  yields \<open>y\<close> again.
\<close>

theorem canonicalizeSkillName_idempotent:
  assumes res: "canonicalizeSkillName T (JString x) = JString y"
    and edges: "trim y = y"
    and closed: "\<forall>(k, v) \<in> set T. canonicalizeSkillName T (JString v) = JString v"
  shows "canonicalizeSkillName T (JString y) = JString y"
proof (cases "truthy (readPlain (map (\<lambda>(k, v). (k, JString v)) T) (cleanName x))")
  case True
  with res have "readPlain (map (\<lambda>(k, v). (k, JString v)) T) (cleanName x) = JString y"
    by (simp add: canonicalizeSkillName_def)
  then have "(cleanName x, y) \<in> set T" by (rule readPlain_alias_string)
  with closed show ?thesis by blast
next
  case False
  with res have y: "y = cleanName x" by (simp add: canonicalizeSkillName_def)
  with edges have "cleanName y = y" by (simp add: cleanName_fixed)
  with False y show ?thesis by (simp add: canonicalizeSkillName_def)
qed

theorem canonicalizeSkillName_idempotent_witness:
  "canonicalizeSkillName [(''js'', ''javascript'')] (JString '' JS!  '') = JString ''javascript''
   \<and> trim ''javascript'' = ''javascript''
   \<and> canonicalizeSkillName [(''js'', ''javascript'')] (JString ''javascript'')
       = JString ''javascript''"
proof -
  have a: "canonicalizeSkillName [(''js'', ''javascript'')] (JString '' JS!  '')
      = JString ''javascript''"
    by code_simp
  have b: "trim ''javascript'' = ''javascript''"
    by code_simp
  have c: "\<forall>(k, v) \<in> set [(''js'', ''javascript'')].
      canonicalizeSkillName [(''js'', ''javascript'')] (JString v) = JString v"
    by code_simp
  from canonicalizeSkillName_idempotent [OF a b c] a b show ?thesis by blast
qed

subsection \<open>The Cauchy-Schwarz inequality for sums over a list\<close>



subsection \<open>Skill vectors without inherited keys\<close>

lemma nativeToString_not_inherited:
  "k \<in> set objectPrototypeKeys \<Longrightarrow> nativeToString k \<notin> set objectPrototypeKeys"
  by (auto simp: objectPrototypeKeys_def nativeToString_def)

lemma plainAliases_value:
  "plainAliases T \<Longrightarrow> map_of T c = Some v \<Longrightarrow> v \<noteq> [] \<and> v \<notin> set objectPrototypeKeys"
  by (auto simp: plainAliases_def list_all_iff dest!: map_of_SomeD)

lemma canonical_key_plain:
  assumes "plainAliases T"
  shows "propertyKey (canonicalizeSkillName T (JString s)) \<notin> set objectPrototypeKeys"
proof (cases "map_of T (cleanName s)")
  case None
  then show ?thesis
    by (simp add: canonicalizeSkillName_def readPlain_def map_of_map Let_def
        nativeToString_not_inherited)
next
  case (Some v)
  with assms have "v \<noteq> [] \<and> v \<notin> set objectPrototypeKeys" by (rule plainAliases_value)
  with Some show ?thesis
    by (simp add: canonicalizeSkillName_def readPlain_def map_of_map Let_def)
qed

lemma set_setProp: "set (setProp ps k v) \<subseteq> insert (k, v) (set ps)"
  by (induction ps) (auto split: if_splits)

lemma set_assignWeight: "set (assignWeight ps k v) \<subseteq> insert (k, v) (set ps)"
  using set_setProp [of ps k v] by (auto simp: assignWeight_def)

lemma fold_invariant:
  assumes step: "\<And>x acc. x \<in> set xs \<Longrightarrow> Q acc \<Longrightarrow> Q (f x acc)"
    and init: "Q acc"
  shows "Q (fold f xs acc)"
  using assms
proof (induction xs arbitrary: acc)
  case Nil
  then show ?case by simp
next
  case (Cons x xs)
  have "Q (f x acc)" using Cons.prems by simp
  moreover have "\<And>y acc. y \<in> set xs \<Longrightarrow> Q acc \<Longrightarrow> Q (f y acc)" using Cons.prems by simp
  ultimately have "Q (fold f xs (f x acc))" using Cons.IH by blast
  then show ?case by simp
qed

lemma normalizeSkills_entries:
  assumes "plainAliases T" and "(k, w) \<in> set (normalizeSkills T us)"
  shows "k \<notin> set objectPrototypeKeys \<and> w = 1"
proof -
  let ?Q = "\<lambda>acc :: skillVector. \<forall>e \<in> set acc. fst e \<notin> set objectPrototypeKeys \<and> snd e = 1"
  have "?Q (normalizeSkills T us)"
    unfolding normalizeSkills_def
  proof (rule fold_invariant)
    fix x and acc :: skillVector
    assume acc: "?Q acc"
    have "?Q (assignWeight acc (propertyKey (canonicalizeSkillName T (JString x))) 1)"
    proof
      fix e
      assume "e \<in> set (assignWeight acc (propertyKey (canonicalizeSkillName T (JString x))) 1)"
      then have "e = (propertyKey (canonicalizeSkillName T (JString x)), 1) \<or> e \<in> set acc"
        using set_assignWeight [of acc "propertyKey (canonicalizeSkillName T (JString x))" 1]
        by auto
      then show "fst e \<notin> set objectPrototypeKeys \<and> snd e = 1"
        using acc canonical_key_plain [OF assms(1), of x] by auto
    qed
    with acc show "?Q (let key = canonicalizeSkillName T (JString x)
              in if hasPositiveLength key then assignWeight acc (propertyKey key) 1 else acc)"
      by (simp add: Let_def)
  qed simp
  with assms(2) show ?thesis by force
qed

lemma roleSkillsVector_entries:
  assumes "plainAliases T" and "(k, w) \<in> set (roleSkillsVector T rs)"
  shows "k \<notin> set objectPrototypeKeys \<and> (\<exists>s \<in> set rs. w = weightOrOne (weight s))"
proof -
  let ?Q = "\<lambda>acc :: skillVector. \<forall>e \<in> set acc.
      fst e \<notin> set objectPrototypeKeys \<and> (\<exists>s \<in> set rs. snd e = weightOrOne (weight s))"
  have "?Q (roleSkillsVector T rs)"
    unfolding roleSkillsVector_def
  proof (rule fold_invariant)
    fix x and acc :: skillVector
    assume x: "x \<in> set rs" and acc: "?Q acc"
    show "?Q (assignWeight acc (propertyKey (canonicalizeSkillName T (JString (name x))))
                (weightOrOne (weight x)))"
    proof
      fix e
      assume "e \<in> set (assignWeight acc
                (propertyKey (canonicalizeSkillName T (JString (name x))))
                (weightOrOne (weight x)))"
      then have "e = (propertyKey (canonicalizeSkillName T (JString (name x))),
          weightOrOne (weight x)) \<or> e \<in> set acc"
        using set_assignWeight [of acc "propertyKey (canonicalizeSkillName T (JString (name x)))"
          "weightOrOne (weight x)"] by auto
      then show "fst e \<notin> set objectPrototypeKeys \<and> (\<exists>s \<in> set rs. snd e = weightOrOne (weight s))"
        using acc x canonical_key_plain [OF assms(1), of "name x"] by auto
    qed
  qed simp
  with assms(2) show ?thesis by force
qed

lemma weightAt_plain:
  "key \<notin> set objectPrototypeKeys \<Longrightarrow> weightAt vec key = Num (ownWeight vec key)"
  by (auto simp: weightAt_def readPlain_def ownWeight_def map_of_map split: option.splits)

lemma cosine_fold:
  assumes "\<forall>k \<in> set ks. k \<notin> set objectPrototypeKeys"
  shows "fold (cosineStep A B) ks (Num d, Num a, Num b) =
    (Num (d + (\<Sum>k\<leftarrow>ks. ownWeight A k * ownWeight B k)),
     Num (a + (\<Sum>k\<leftarrow>ks. (ownWeight A k)\<^sup>2)),
     Num (b + (\<Sum>k\<leftarrow>ks. (ownWeight B k)\<^sup>2)))"
  using assms
  by (induction ks arbitrary: d a b)
     (simp_all add: cosineStep_def weightAt_plain power2_eq_square add.assoc)

lemma set_newSet: "set (newSet xs) = set xs"
proof -
  have "set (foldl setAdd acc xs) = set acc \<union> set xs" for acc :: "'a list"
    by (induction xs arbitrary: acc) (auto simp: setAdd_def)
  then show ?thesis by (simp add: newSet_def)
qed

lemma set_objectKeys: "set (objectKeys ps) = fst ` set ps"
  by (simp add: objectKeys_def set_newSet)

subsection \<open>Fit score\<close>

lemma cosineSimilarity_plain:
  assumes "\<forall>k \<in> fst ` set A \<union> fst ` set B. k \<notin> set objectPrototypeKeys"
  shows "cosineSimilarity A B =
    (let ks = newSet (objectKeys A @ objectKeys B);
         d = (\<Sum>k\<leftarrow>ks. ownWeight A k * ownWeight B k);
         a = (\<Sum>k\<leftarrow>ks. (ownWeight A k)\<^sup>2);
         b = (\<Sum>k\<leftarrow>ks. (ownWeight B k)\<^sup>2)
     in Num (if a = 0 \<or> b = 0 then 0 else d / (sqrt a * sqrt b)))"
proof -
  define ks where "ks = newSet (objectKeys A @ objectKeys B)"
  have keys: "\<forall>k \<in> set ks. k \<notin> set objectPrototypeKeys"
    using assms by (auto simp: ks_def set_newSet set_objectKeys)
  have a0: "0 \<le> (\<Sum>k\<leftarrow>ks. (ownWeight A k)\<^sup>2)" by (rule sum_list_nonneg) auto
  have b0: "0 \<le> (\<Sum>k\<leftarrow>ks. (ownWeight B k)\<^sup>2)" by (rule sum_list_nonneg) auto
  have f: "fold (cosineStep A B) ks (Num 0, Num 0, Num 0) =
    (Num (\<Sum>k\<leftarrow>ks. ownWeight A k * ownWeight B k),
     Num (\<Sum>k\<leftarrow>ks. (ownWeight A k)\<^sup>2),
     Num (\<Sum>k\<leftarrow>ks. (ownWeight B k)\<^sup>2))"
    using cosine_fold [OF keys, of A B 0 0 0] by simp
  show ?thesis
    unfolding cosineSimilarity_def Let_def ks_def [symmetric] f
    using a0 b0 by simp
qed





lemma fitScore_vectors_plain:
  assumes "plainAliases T"
  shows "\<forall>k \<in> fst ` set (normalizeSkills T us) \<union> fst ` set (roleSkillsVector T rs).
           k \<notin> set objectPrototypeKeys"
  using normalizeSkills_entries [OF assms] roleSkillsVector_entries [OF assms] by fastforce





subsection \<open>Role ranking\<close>

lemma calculateFitScore_num:
  assumes "plainAliases T"
  shows "\<exists>x. calculateFitScore T us rs = Num x"
proof -
  have "\<exists>c. cosineSimilarity (normalizeSkills T u) (roleSkillsVector T r) = Num c" for u r
    using cosineSimilarity_plain [OF fitScore_vectors_plain [OF assms, of u r]]
    by (simp add: Let_def)
  then show ?thesis
    by (auto simp: calculateFitScore_def split: option.splits) (metis jsMul.simps(1) jsRound.simps(1))
qed

lemma calculateEnhancedFitScore_num:
  assumes "plainAliases T"
  shows "\<exists>x. calculateEnhancedFitScore T us rs is rl = Num x"
proof -
  from calculateFitScore_num [OF assms] obtain x where "calculateFitScore T us rs = Num x" by blast
  then show ?thesis by (simp add: calculateEnhancedFitScore_def)
qed

lemma scoreRole_num:
  assumes "plainAliases T"
  shows "\<exists>x. score (scoreRole T prof rl) = Num x"
  using calculateEnhancedFitScore_num [OF assms] by (simp add: scoreRole_def Let_def)

lemma mset_insertMatch: "mset (insertMatch a bs) = add_mset a (mset bs)"
  by (induction bs) auto

lemma mset_sortMatches: "mset (sortMatches ms) = mset ms"
  by (induction ms) (simp_all add: sortMatches_def mset_insertMatch)

lemma equal_score_not_after: "score a = score b \<Longrightarrow> \<not> sortsAfter a b"
  by (cases "score b") (simp_all add: sortsAfter_def)

lemma filter_insertMatch:
  "filter (\<lambda>m. score m = v) (insertMatch a bs) =
     (if score a = v then a # filter (\<lambda>m. score m = v) bs else filter (\<lambda>m. score m = v) bs)"
  by (induction bs) (auto dest: equal_score_not_after)

lemma filter_sortMatches:
  "filter (\<lambda>m. score m = v) (sortMatches ms) = filter (\<lambda>m. score m = v) ms"
  by (induction ms) (simp_all add: sortMatches_def filter_insertMatch)

lemma sorted_insertMatch:
  assumes "\<forall>m \<in> set (a # bs). \<exists>x. score m = Num x"
    and "sorted_wrt (\<lambda>a b. jsGe (score a) (score b)) bs"
  shows "sorted_wrt (\<lambda>a b. jsGe (score a) (score b)) (insertMatch a bs)"
  using assms
proof (induction bs)
  case Nil
  then show ?case by simp
next
  case (Cons b bs)
  obtain x y where x: "score a = Num x" and y: "score b = Num y" using Cons.prems(1) by auto
  show ?case
  proof (cases "sortsAfter a b")
    case True
    then have "jsGe (score b) (score a)" by (simp add: sortsAfter_def x y)
    moreover have "sorted_wrt (\<lambda>a b. jsGe (score a) (score b)) (insertMatch a bs)"
      using Cons by simp
    moreover have "set (insertMatch a bs) = insert a (set bs)"
      using mset_insertMatch [of a bs] by (metis set_mset_add_mset_insert set_mset_mset)
    ultimately show ?thesis using True Cons.prems(2) by auto
  next
    case False
    then have ab: "jsGe (score a) (score b)" by (simp add: sortsAfter_def x y)
    have "jsGe (score a) (score c)" if c: "c \<in> set bs" for c
    proof -
      from c Cons.prems(2) have "jsGe (score b) (score c)" by simp
      moreover from c Cons.prems(1) have "\<exists>z. score c = Num z" by simp
      then obtain z where "score c = Num z" by blast
      ultimately show ?thesis using ab by (simp add: x y)
    qed
    then show ?thesis using False ab Cons.prems(2) by auto
  qed
qed

lemma sorted_sortMatches:
  assumes "\<forall>m \<in> set ms. \<exists>x. score m = Num x"
  shows "sorted_wrt (\<lambda>a b. jsGe (score a) (score b)) (sortMatches ms)"
  using assms
proof (induction ms)
  case Nil
  then show ?case by (simp add: sortMatches_def)
next
  case (Cons m ms)
  have "set (sortMatches ms) = set ms" using mset_sortMatches [of ms] by (metis set_mset_mset)
  then have "\<forall>k \<in> set (m # sortMatches ms). \<exists>x. score k = Num x" using Cons.prems by simp
  moreover have "sorted_wrt (\<lambda>a b. jsGe (score a) (score b)) (sortMatches ms)"
    using Cons by simp
  ultimately have "sorted_wrt (\<lambda>a b. jsGe (score a) (score b)) (insertMatch m (sortMatches ms))"
    by (rule sorted_insertMatch)
  then show ?case by (simp add: sortMatches_def)
qed

lemma sorted_wrt_take: "sorted_wrt R xs \<Longrightarrow> sorted_wrt R (take n xs)"
  by (metis append_take_drop_id sorted_wrt_append)

text \<open>
  C4. Let the alias table have no empty value and no value that names a member of
  \<open>Object.prototype\<close>. For every profile (two arrays of strings), every catalog and every
  count, the result of \<open>getTopRoleMatches\<close> is a prefix of a list \<open>ranked\<close> that holds
  the scored roles of the catalog, each once, in descending order of score, roles of equal
  score in catalog order; the result itself is in descending order. For a count that is
  not negative it is the first \<open>count\<close> elements, so at most \<open>count\<close> long. It is
  empty for the empty catalog, and not empty for a catalog that is not empty and a count
  of at least 1, whatever the profile. The score of a role is its blended score. The
  model has no error branch for these inputs: nothing in the function can throw.
\<close>

theorem getTopRoleMatches_ranked:
  assumes T: "plainAliases T"
  shows "\<exists>ranked.
      mset ranked = mset (map (scoreRole T prof) roles)
    \<and> sorted_wrt (\<lambda>a b. jsGe (score a) (score b)) ranked
    \<and> (\<forall>v. filter (\<lambda>m. score m = v) ranked
            = filter (\<lambda>m. score m = v) (map (scoreRole T prof) roles))
    \<and> (0 \<le> cnt \<longrightarrow> getTopRoleMatches T roles prof cnt = take (nat cnt) ranked
                  \<and> length (getTopRoleMatches T roles prof cnt) \<le> nat cnt)
    \<and> sorted_wrt (\<lambda>a b. jsGe (score a) (score b)) (getTopRoleMatches T roles prof cnt)
    \<and> (roles = [] \<longrightarrow> getTopRoleMatches T roles prof cnt = [])
    \<and> (roles \<noteq> [] \<and> 1 \<le> cnt \<longrightarrow> getTopRoleMatches T roles prof cnt \<noteq> [])
    \<and> (\<forall>rl. score (scoreRole T prof rl) =
          calculateEnhancedFitScore T (Some (profileSkills prof)) (Some (skills rl))
            (Some (profileInterests prof)) (Some rl))"
proof -
  define scored where "scored = map (scoreRole T prof) roles"
  define ranked where "ranked = sortMatches scored"
  have res: "getTopRoleMatches T roles prof cnt = sliceTo ranked cnt"
    by (simp add: getTopRoleMatches_def ranked_def scored_def)
  have nums: "\<forall>m \<in> set scored. \<exists>x. score m = Num x"
    using scoreRole_num [OF T] by (auto simp: scored_def)
  have p1: "mset ranked = mset scored" by (simp add: ranked_def mset_sortMatches)
  have p2: "sorted_wrt (\<lambda>a b. jsGe (score a) (score b)) ranked"
    unfolding ranked_def using nums by (rule sorted_sortMatches)
  have p3: "\<forall>v. filter (\<lambda>m. score m = v) ranked = filter (\<lambda>m. score m = v) scored"
    by (simp add: ranked_def filter_sortMatches)
  have len: "length ranked = length roles"
    using p1 by (metis length_map scored_def size_mset)
  have p4: "0 \<le> cnt \<longrightarrow> getTopRoleMatches T roles prof cnt = take (nat cnt) ranked
                  \<and> length (getTopRoleMatches T roles prof cnt) \<le> nat cnt"
    by (simp add: res sliceTo_def)
  have p5: "sorted_wrt (\<lambda>a b. jsGe (score a) (score b)) (getTopRoleMatches T roles prof cnt)"
    unfolding res sliceTo_def using p2 by (simp add: sorted_wrt_take)
  have p6: "roles = [] \<longrightarrow> getTopRoleMatches T roles prof cnt = []"
    by (simp add: getTopRoleMatches_def sortMatches_def sliceTo_def)
  have p7: "roles \<noteq> [] \<and> 1 \<le> cnt \<longrightarrow> getTopRoleMatches T roles prof cnt \<noteq> []"
    using len by (auto simp: res sliceTo_def)
  have p8: "\<forall>rl. score (scoreRole T prof rl) =
          calculateEnhancedFitScore T (Some (profileSkills prof)) (Some (skills rl))
            (Some (profileInterests prof)) (Some rl)"
    by (simp add: scoreRole_def Let_def)
  from p1 p2 p3 p4 p5 p6 p7 p8 show ?thesis unfolding scored_def by blast
qed


theorem getTopRoleMatches_ranked_witness:
  "plainAliases []
   \<and> getTopRoleMatches []
        [\<lparr>roleId = ''da'', title = ''Data Analyst'', sector = ''Technology'',
          skills = [\<lparr>name = ''Python'', weight = Some 1\<rparr>]\<rparr>,
         \<lparr>roleId = ''ux'', title = ''UI Designer'', sector = ''Design'',
          skills = [\<lparr>name = ''Figma'', weight = Some 1\<rparr>]\<rparr>,
         \<lparr>roleId = ''pm'', title = ''Product Manager'', sector = ''Business'',
          skills = [\<lparr>name = ''Roadmaps'', weight = None\<rparr>]\<rparr>]
        \<lparr>profileSkills = [''cooking''], profileInterests = [''design'']\<rparr> 2
     = [\<lparr>roleId = ''ux'', title = ''UI Designer'', sector = ''Design'',
          skills = [\<lparr>name = ''Figma'', weight = Some 1\<rparr>],
          score = Num 20, overlapSkills = [], gapSkills = [JString ''figma'']\<rparr>,
        \<lparr>roleId = ''da'', title = ''Data Analyst'', sector = ''Technology'',
          skills = [\<lparr>name = ''Python'', weight = Some 1\<rparr>],
          score = Num 0, overlapSkills = [], gapSkills = [JString ''python'']\<rparr>]
   \<and> length (getTopRoleMatches []
        [\<lparr>roleId = ''da'', title = ''Data Analyst'', sector = ''Technology'',
          skills = [\<lparr>name = ''Python'', weight = Some 1\<rparr>]\<rparr>,
         \<lparr>roleId = ''ux'', title = ''UI Designer'', sector = ''Design'',
          skills = [\<lparr>name = ''Figma'', weight = Some 1\<rparr>]\<rparr>,
         \<lparr>roleId = ''pm'', title = ''Product Manager'', sector = ''Business'',
          skills = [\<lparr>name = ''Roadmaps'', weight = None\<rparr>]\<rparr>]
        \<lparr>profileSkills = [''cooking''], profileInterests = [''design'']\<rparr> 2) \<le> nat 2"
proof -
  define da where "da = \<lparr>roleId = ''da'', title = ''Data Analyst'', sector = ''Technology'',
          skills = [\<lparr>name = ''Python'', weight = Some (1::real)\<rparr>]\<rparr>"
  define ux where "ux = \<lparr>roleId = ''ux'', title = ''UI Designer'', sector = ''Design'',
          skills = [\<lparr>name = ''Figma'', weight = Some (1::real)\<rparr>]\<rparr>"
  define pm where "pm = \<lparr>roleId = ''pm'', title = ''Product Manager'', sector = ''Business'',
          skills = [\<lparr>name = ''Roadmaps'', weight = None\<rparr>]\<rparr>"
  define prof where "prof = \<lparr>profileSkills = [''cooking''], profileInterests = [''design'']\<rparr>"
  have a: "plainAliases []" by (simp add: plainAliases_def)
  have n: "normalizeSkills [] [''cooking''] = [(''cooking'', 1)]" by code_simp
  have v1: "roleSkillsVector [] (skills da) = [(''python'', 1)]" unfolding da_def by code_simp
  have v2: "roleSkillsVector [] (skills ux) = [(''figma'', 1)]" unfolding ux_def by code_simp
  have v3: "roleSkillsVector [] (skills pm) = [(''roadmaps'', 1)]" unfolding pm_def by code_simp
  note cos_defs = cosineSimilarity_def cosineStep_def weightAt_def readPlain_def
        objectPrototypeKeys_def newSet_def setAdd_def objectKeys_def Let_def
  have f1: "calculateFitScore [] (Some [''cooking'']) (Some (skills da)) = Num 0"
    by (simp add: calculateFitScore_def n v1) (simp add: da_def cos_defs)
  have f2: "calculateFitScore [] (Some [''cooking'']) (Some (skills ux)) = Num 0"
    by (simp add: calculateFitScore_def n v2) (simp add: ux_def cos_defs)
  have f3: "calculateFitScore [] (Some [''cooking'']) (Some (skills pm)) = Num 0"
    by (simp add: calculateFitScore_def n v3) (simp add: pm_def cos_defs)
  have o1: "calculateOverlapRatio [] (Some [''cooking'']) (Some (skills da)) = 0"
    unfolding da_def by code_simp
  have o2: "calculateOverlapRatio [] (Some [''cooking'']) (Some (skills ux)) = 0"
    unfolding ux_def by code_simp
  have o3: "calculateOverlapRatio [] (Some [''cooking'']) (Some (skills pm)) = 0"
    unfolding pm_def by code_simp
  have i1: "calculateInterestMatch (Some [''design'']) (Some da) = 0"
    unfolding da_def by code_simp
  have i2: "calculateInterestMatch (Some [''design'']) (Some ux) = 1"
    unfolding ux_def by code_simp
  have i3: "calculateInterestMatch (Some [''design'']) (Some pm) = 0"
    unfolding pm_def by code_simp
  have s1: "score (scoreRole [] prof da) = Num 0"
    by (simp add: scoreRole_def prof_def calculateEnhancedFitScore_def f1 o1 i1 Let_def)
  have s2: "score (scoreRole [] prof ux) = Num 20"
    by (simp add: scoreRole_def prof_def calculateEnhancedFitScore_def f2 o2 i2 Let_def)
  have s3: "score (scoreRole [] prof pm) = Num 0"
    by (simp add: scoreRole_def prof_def calculateEnhancedFitScore_def f3 o3 i3 Let_def)
  have srt: "sortMatches [scoreRole [] prof da, scoreRole [] prof ux, scoreRole [] prof pm]
      = [scoreRole [] prof ux, scoreRole [] prof da, scoreRole [] prof pm]"
    by (simp add: sortMatches_def sortsAfter_def s1 s2 s3)
  have c0: "canonicalizeSkillName [] (JString ''cooking'') = JString ''cooking''" by code_simp
  have c1: "canonicalizeSkillName [] (JString ''Python'') = JString ''python''" by code_simp
  have c2: "canonicalizeSkillName [] (JString ''Figma'') = JString ''figma''" by code_simp
  have g1: "overlapSkills (scoreRole [] prof da) = []
      \<and> gapSkills (scoreRole [] prof da) = [JString ''python'']"
    by (simp add: scoreRole_def Let_def da_def prof_def c0 c1)
  have g2: "overlapSkills (scoreRole [] prof ux) = []
      \<and> gapSkills (scoreRole [] prof ux) = [JString ''figma'']"
    by (simp add: scoreRole_def Let_def ux_def prof_def c0 c2)
  have m1: "scoreRole [] prof da = \<lparr>roleId = ''da'', title = ''Data Analyst'', sector = ''Technology'',
          skills = [\<lparr>name = ''Python'', weight = Some 1\<rparr>],
          score = Num 0, overlapSkills = [], gapSkills = [JString ''python'']\<rparr>"
    using s1 g1 by (simp add: scoreRole_def Let_def da_def)
  have m2: "scoreRole [] prof ux = \<lparr>roleId = ''ux'', title = ''UI Designer'', sector = ''Design'',
          skills = [\<lparr>name = ''Figma'', weight = Some 1\<rparr>],
          score = Num 20, overlapSkills = [], gapSkills = [JString ''figma'']\<rparr>"
    using s2 g2 by (simp add: scoreRole_def Let_def ux_def)
  have res: "getTopRoleMatches [] [da, ux, pm] prof 2 = [scoreRole [] prof ux, scoreRole [] prof da]"
    by (simp add: getTopRoleMatches_def srt sliceTo_def)
  from getTopRoleMatches_ranked [OF a, of prof "[da, ux, pm]" 2]
  have "length (getTopRoleMatches [] [da, ux, pm] prof 2) \<le> nat 2" by auto
  with a res m1 m2 show ?thesis unfolding da_def ux_def pm_def prof_def by simp
qed

subsection \<open>Overlap and gap\<close>

text \<open>
  C6. For all arrays \<open>U\<close> of strings and \<open>R\<close> of role skills, the canonical tokens
  returned by \<open>calculateOverlapSkills\<close> and those returned by \<open>calculateGapSkills\<close> are
  disjoint sets, and their union is the set of the canonical tokens of \<open>R\<close>.
\<close>

theorem overlap_gap_partition:
  "set (calculateOverlapSkills T (Some U) (Some R))
     \<inter> set (calculateGapSkills T (Some U) (Some R)) = {}
   \<and> set (calculateOverlapSkills T (Some U) (Some R))
     \<union> set (calculateGapSkills T (Some U) (Some R))
     = set (map (\<lambda>s. canonicalizeSkillName T (JString (name s))) R)"
  by (auto simp: calculateOverlapSkills_def calculateGapSkills_def Let_def)

text \<open>What \<open>calculateOverlapRatio\<close> computes, and when it is the ratio of C3.\<close>

lemma calculateOverlapRatio_count:
  assumes "us \<noteq> []" and "rs \<noteq> []"
  shows "calculateOverlapRatio T (Some us) (Some rs) =
    real (length (filter (\<lambda>t. t \<in> set (map (\<lambda>s. canonicalizeSkillName T (JString (name s))) rs))
            (map (\<lambda>s. canonicalizeSkillName T (JString s)) us)))
    / real (length rs)"
  using assms by (simp add: calculateOverlapRatio_def Let_def)

lemma calculateOverlapRatio_distinct:
  assumes "us \<noteq> []" and "rs \<noteq> []"
    and "distinct (map (\<lambda>s. canonicalizeSkillName T (JString s)) us)"
    and "distinct (map (\<lambda>s. canonicalizeSkillName T (JString (name s))) rs)"
  shows "calculateOverlapRatio T (Some us) (Some rs) =
    real (card (set (map (\<lambda>s. canonicalizeSkillName T (JString s)) us)
                \<inter> set (map (\<lambda>s. canonicalizeSkillName T (JString (name s))) rs)))
    / real (card (set (map (\<lambda>s. canonicalizeSkillName T (JString (name s))) rs)))"
proof -
  define nU where "nU = map (\<lambda>s. canonicalizeSkillName T (JString s)) us"
  define nR where "nR = map (\<lambda>s. canonicalizeSkillName T (JString (name s))) rs"
  have "distinct (filter (\<lambda>t. t \<in> set nR) nU)" using assms(3) by (simp add: nU_def)
  then have "length (filter (\<lambda>t. t \<in> set nR) nU) = card (set (filter (\<lambda>t. t \<in> set nR) nU))"
    by (rule distinct_card [symmetric])
  also have "set (filter (\<lambda>t. t \<in> set nR) nU) = set nU \<inter> set nR" by auto
  finally have n: "length (filter (\<lambda>t. t \<in> set nR) nU) = card (set nU \<inter> set nR)" .
  have "card (set nR) = length nR" using assms(4) unfolding nR_def by (rule distinct_card)
  then have d: "card (set nR) = length rs" by (simp add: nR_def)
  show ?thesis
    using calculateOverlapRatio_count [OF assms(1,2), of T] n d
    by (simp add: nU_def nR_def)
qed

text \<open>
  C3 fails on the code. The ratio counts the entries of the user's list, with repetitions,
  whose canonical form occurs among the role's: for the user skills python, python and
  the one role skill python it is 2 / 1 = 2, where the set formula of the claim gives
  1 / 1, and 2 is outside [0,1].
\<close>

theorem calculateOverlapRatio_duplicates:
  "calculateOverlapRatio [] (Some [''python'', ''python''])
     (Some [\<lparr>name = ''python'', weight = Some 1\<rparr>]) = 2
   \<and> real (card (set (map (\<lambda>s. canonicalizeSkillName [] (JString s)) [''python'', ''python''])
                 \<inter> set (map (\<lambda>s. canonicalizeSkillName [] (JString (name s)))
                          [\<lparr>name = ''python'', weight = Some 1\<rparr>])))
     / real (card (set (map (\<lambda>s. canonicalizeSkillName [] (JString (name s)))
                          [\<lparr>name = ''python'', weight = Some 1\<rparr>]))) = 1"
  by code_simp

subsection \<open>Cosine similarity\<close>

lemma weightAt_own:
  "key \<in> fst ` set vec \<Longrightarrow> weightAt vec key = Num (ownWeight vec key)"
proof -
  assume "key \<in> fst ` set vec"
  then obtain w where "map_of vec key = Some w"
    by (metis domD dom_map_of_conv_image_fst)
  then show ?thesis
    by (simp add: weightAt_def readPlain_def ownWeight_def map_of_map)
qed

lemma cosine_fold_own:
  assumes "\<forall>k \<in> set ks. weightAt A k = Num (ownWeight A k) \<and> weightAt B k = Num (ownWeight B k)"
  shows "fold (cosineStep A B) ks (Num d, Num a, Num b) =
    (Num (d + (\<Sum>k\<leftarrow>ks. ownWeight A k * ownWeight B k)),
     Num (a + (\<Sum>k\<leftarrow>ks. (ownWeight A k)\<^sup>2)),
     Num (b + (\<Sum>k\<leftarrow>ks. (ownWeight B k)\<^sup>2)))"
  using assms
  by (induction ks arbitrary: d a b)
     (simp_all add: cosineStep_def power2_eq_square add.assoc)

text \<open>The first part of C9 holds: a vector with a weight that is not zero has similarity 1
  with itself.\<close>

lemma cosineSimilarity_self:
  assumes "ownWeight A key \<noteq> 0"
  shows "cosineSimilarity A A = Num 1"
proof -
  define ks where "ks = newSet (objectKeys A @ objectKeys A)"
  define a where "a = (\<Sum>k\<leftarrow>ks. (ownWeight A k)\<^sup>2)"
  have ks: "set ks = fst ` set A" by (simp add: ks_def set_newSet set_objectKeys)
  have own: "\<forall>k \<in> set ks. weightAt A k = Num (ownWeight A k) \<and> weightAt A k = Num (ownWeight A k)"
    using ks weightAt_own by blast
  have f: "fold (cosineStep A A) ks (Num 0, Num 0, Num 0) = (Num a, Num a, Num a)"
    using cosine_fold_own [OF own, of 0 0 0] by (simp add: a_def power2_eq_square)
  have "key \<in> set ks"
    using assms ks by (auto simp: ownWeight_def split: option.splits dest!: map_of_SomeD intro: rev_image_eqI)
  then have "(ownWeight A key)\<^sup>2 \<le> a"
    unfolding a_def by (intro member_le_sum_list) auto
  moreover have "0 < (ownWeight A key)\<^sup>2" using assms by simp
  ultimately have pos: "0 < a" by linarith
  show ?thesis
    unfolding cosineSimilarity_def Let_def ks_def [symmetric] f
    using pos by simp
qed

text \<open>The other two parts of C9 hold for vectors without inherited keys.\<close>

lemma cosineSimilarity_disjoint:
  assumes plain: "\<forall>k \<in> fst ` set A \<union> fst ` set B. k \<notin> set objectPrototypeKeys"
    and disj: "fst ` set A \<inter> fst ` set B = {}"
  shows "cosineSimilarity A B = Num 0"
proof -
  have prod0: "ownWeight A k * ownWeight B k = 0" for k
  proof (cases "map_of A k")
    case None
    then show ?thesis by (simp add: ownWeight_def)
  next
    case (Some w)
    then have "k \<in> fst ` set A" by (auto dest!: map_of_SomeD intro: rev_image_eqI)
    with disj have "k \<notin> fst ` set B" by blast
    then have "map_of B k = None" by (simp add: map_of_eq_None_iff)
    then show ?thesis by (simp add: ownWeight_def)
  qed
  have "(\<Sum>k\<leftarrow>ks. ownWeight A k * ownWeight B k) = 0" for ks
    by (induction ks) (simp_all add: prod0)
  then show ?thesis
    using cosineSimilarity_plain [OF plain] by (simp add: Let_def)
qed

lemma cosineSimilarity_zero_magnitude:
  assumes plain: "\<forall>k \<in> fst ` set A \<union> fst ` set B. k \<notin> set objectPrototypeKeys"
    and zero: "\<forall>k. ownWeight A k = 0"
  shows "cosineSimilarity A B = Num 0" and "cosineSimilarity B A = Num 0"
proof -
  have plain': "\<forall>k \<in> fst ` set B \<union> fst ` set A. k \<notin> set objectPrototypeKeys"
    using plain by blast
  show "cosineSimilarity A B = Num 0"
    using cosineSimilarity_plain [OF plain] zero by (simp add: Let_def)
  show "cosineSimilarity B A = Num 0"
    using cosineSimilarity_plain [OF plain'] zero by (simp add: Let_def)
qed

text \<open>
  C9 fails on the code. The vectors \<open>{a: 1}\<close> and \<open>{constructor: 1}\<close> have disjoint key
  sets, and the result is NaN, not 0: at the key \<open>constructor\<close> the first vector
  inherits the built-in function \<open>Object\<close>, which \<open>|| 0\<close> does not replace. Likewise
  the empty vector, of magnitude zero, against \<open>{constructor: 1}\<close> gives NaN.
\<close>

theorem cosineSimilarity_inherited_key:
  "set (objectKeys [(''a'', 1 :: real)]) \<inter> set (objectKeys [(''constructor'', 1 :: real)]) = {}
   \<and> cosineSimilarity [(''a'', 1)] [(''constructor'', 1)] = NaN
   \<and> cosineSimilarity [] [(''constructor'', 1)] = NaN"
  by (simp add: cosineSimilarity_def cosineStep_def weightAt_def readPlain_def
      objectPrototypeKeys_def newSet_def setAdd_def objectKeys_def Let_def)

subsection \<open>Profile sanitizer\<close>

lemma map_of_setProp: "map_of (setProp ps k v) = (map_of ps)(k \<mapsto> v)"
  by (induction ps) (auto simp: fun_eq_iff)

lemma fieldOf_setProp: "fieldOf (setProp ps k v) k' = (if k' = k then v else fieldOf ps k')"
  by (simp add: fieldOf_def map_of_setProp)

lemma cleanEntries_length:
  "cleanEntries T limit xs = Inr a \<Longrightarrow> \<exists>ys. a = JArray ys [] \<and> length ys \<le> limit"
  by (auto simp: cleanEntries_def split: sum.splits)

lemma cleanArrayField_other:
  "cleanArrayField T k limit c = Inr c' \<Longrightarrow> k' \<noteq> k \<Longrightarrow> map_of c' k' = map_of c k'"
  by (auto simp: cleanArrayField_def map_of_setProp split: jsval.splits sum.splits)

lemma cleanArrayField_bound:
  "cleanArrayField T k limit c = Inr c' \<Longrightarrow> fieldOf c' k = JArray xs ps \<Longrightarrow> length xs \<le> limit"
  by (auto simp: cleanArrayField_def fieldOf_setProp split: jsval.splits sum.splits dest!: cleanEntries_length)

lemma clampWeeklyTime_other:
  "k' \<noteq> ''weeklyTime'' \<Longrightarrow> map_of (clampWeeklyTime c) k' = map_of c k'"
  by (auto simp: clampWeeklyTime_def map_of_setProp split: jsval.splits)

lemma coerceEnum_other:
  "k' \<noteq> k \<Longrightarrow> map_of (coerceEnum k valid dflt c) k' = map_of c k'"
  by (auto simp: coerceEnum_def map_of_setProp)

lemma coerceEnum_field:
  "fieldOf (coerceEnum k valid dflt c) k =
     (if fieldOf c k \<in> set (map JString valid) then fieldOf c k else JString dflt)"
  by (auto simp: coerceEnum_def fieldOf_setProp)

lemma fieldOf_cong: "map_of a k = map_of b k \<Longrightarrow> fieldOf a k = fieldOf b k"
  by (simp add: fieldOf_def)

text \<open>When the sanitizer returns: always, unless an entry of the skills or interests array
  is a string whose canonical form is not a string.\<close>

lemma mapE_total:
  "(\<And>x. x \<in> set xs \<Longrightarrow> \<exists>y. f x = Inr y) \<Longrightarrow> \<exists>ys. mapE f xs = Inr ys"
proof (induction xs)
  case Nil
  then show ?case by simp
next
  case (Cons x xs)
  then obtain y ys where "f x = Inr y" "mapE f xs = Inr ys" by (metis list.set_intros)
  then show ?case by simp
qed

lemma cleanArrayField_total:
  assumes "\<And>xs ps s. fieldOf c k = JArray xs ps \<Longrightarrow> JString s \<in> set xs
      \<Longrightarrow> \<exists>t. canonicalizeSkillName T (JString s) = JString t"
  shows "\<exists>c'. cleanArrayField T k limit c = Inr c'"
proof (cases "fieldOf c k")
  case (JArray xs ps)
  have "\<exists>y. sanitizeSkill T x = Inr y" if "x \<in> set xs" for x
  proof (cases x)
    case (JString s)
    with assms [OF JArray, of s] that obtain t where "canonicalizeSkillName T x = JString t"
      by blast
    with JString show ?thesis by (simp add: sanitizeSkill_def)
  qed (simp_all add: sanitizeSkill_def)
  then obtain ys where "mapE (sanitizeSkill T) xs = Inr ys" using mapE_total by blast
  with JArray show ?thesis by (simp add: cleanArrayField_def cleanEntries_def)
qed (simp_all add: cleanArrayField_def)

lemma validateAndCleanProfile_returns:
  assumes "\<And>k xs ps s. k \<in> {''skills'', ''interests''} \<Longrightarrow> fieldOf p k = JArray xs ps
      \<Longrightarrow> JString s \<in> set xs \<Longrightarrow> \<exists>t. canonicalizeSkillName T (JString s) = JString t"
  shows "\<exists>r. validateAndCleanProfile T p = Inr r"
proof -
  have "\<exists>c1. cleanArrayField T ''skills'' 20 p = Inr c1"
    by (rule cleanArrayField_total) (rule assms, simp_all)
  then obtain c1 where c1: "cleanArrayField T ''skills'' 20 p = Inr c1" by blast
  have f: "fieldOf c1 ''interests'' = fieldOf p ''interests''"
    by (rule fieldOf_cong) (simp add: cleanArrayField_other [OF c1])
  have "\<exists>c2. cleanArrayField T ''interests'' 10 c1 = Inr c2"
    by (rule cleanArrayField_total) (rule assms [of "''interests''"], simp_all add: f)
  then obtain c2 where "cleanArrayField T ''interests'' 10 c1 = Inr c2" by blast
  with c1 show ?thesis by (simp add: validateAndCleanProfile_def)
qed

lemma validateAndCleanProfile_error:
  "validateAndCleanProfile T p = Inl e \<Longrightarrow> e = TypeError"
proof -
  have s: "sanitizeSkill T x = Inl e \<Longrightarrow> e = TypeError" for x e
    by (auto simp: sanitizeSkill_def split: jsval.splits)
  have m: "mapE (sanitizeSkill T) xs = Inl e \<Longrightarrow> e = TypeError" for xs e
    by (induction xs) (auto split: sum.splits dest: s)
  have c: "cleanArrayField T k n c = Inl e \<Longrightarrow> e = TypeError" for k n c e
    by (auto simp: cleanArrayField_def cleanEntries_def split: jsval.splits sum.splits dest: m)
  assume "validateAndCleanProfile T p = Inl e"
  then show ?thesis
    by (auto simp: validateAndCleanProfile_def split: sum.splits dest: c)
qed

text \<open>
  C10. Whenever \<open>validateAndCleanProfile\<close> returns, every field other than skills,
  interests, weeklyTime, education, budget and language is in the result exactly as in the
  input (present with the same value, or absent); a weeklyTime that is not a number is
  unchanged; a weeklyTime that is a number \<open>n\<close> becomes \<open>min(max(n, 1), 40)\<close>.
\<close>

theorem validateAndCleanProfile_frame:
  assumes "validateAndCleanProfile T p = Inr r"
  shows "(k \<notin> {''skills'', ''interests'', ''weeklyTime'', ''education'', ''budget'', ''language''}
            \<longrightarrow> map_of r k = map_of p k)
       \<and> ((\<forall>n. fieldOf p ''weeklyTime'' \<noteq> JNumber n)
            \<longrightarrow> map_of r ''weeklyTime'' = map_of p ''weeklyTime'')
       \<and> (\<forall>n. fieldOf p ''weeklyTime'' = JNumber n
            \<longrightarrow> fieldOf r ''weeklyTime'' = JNumber (jsMin (jsMax n (Num 1)) (Num 40)))"
proof -
  from assms obtain c1 c2 where
    c1: "cleanArrayField T ''skills'' 20 p = Inr c1" and
    c2: "cleanArrayField T ''interests'' 10 c1 = Inr c2" and
    r: "r = coerceEnum ''language'' validLanguage ''en''
              (coerceEnum ''budget'' validBudget ''free''
                (coerceEnum ''education'' validEducation ''Other'' (clampWeeklyTime c2)))"
    by (auto simp: validateAndCleanProfile_def split: sum.splits)
  have frame: "map_of c2 k' = map_of p k'" if "k' \<noteq> ''skills''" "k' \<noteq> ''interests''" for k'
    using that cleanArrayField_other [OF c1, of k'] cleanArrayField_other [OF c2, of k'] by simp
  have wt: "map_of r ''weeklyTime'' = map_of (clampWeeklyTime c2) ''weeklyTime''"
    unfolding r by (simp add: coerceEnum_other)
  have wtp: "fieldOf c2 ''weeklyTime'' = fieldOf p ''weeklyTime''"
    by (rule fieldOf_cong) (simp add: frame)
  have a: "map_of r k = map_of p k"
    if "k \<notin> {''skills'', ''interests'', ''weeklyTime'', ''education'', ''budget'', ''language''}"
    using that unfolding r by (simp add: coerceEnum_other clampWeeklyTime_other frame)
  have b: "map_of r ''weeklyTime'' = map_of p ''weeklyTime''"
    if "\<forall>n. fieldOf p ''weeklyTime'' \<noteq> JNumber n"
    using that wtp unfolding wt by (auto simp: clampWeeklyTime_def frame split: jsval.splits)
  have c: "fieldOf r ''weeklyTime'' = JNumber (jsMin (jsMax n (Num 1)) (Num 40))"
    if "fieldOf p ''weeklyTime'' = JNumber n" for n
    using that wtp fieldOf_cong [OF wt] by (simp add: clampWeeklyTime_def fieldOf_setProp)
  from a b c show ?thesis by blast
qed

theorem validateAndCleanProfile_frame_witness:
  "validateAndCleanProfile [] [(''name'', JString ''Test User''), (''weeklyTime'', JString ''15'')]
     = Inr [(''name'', JString ''Test User''), (''weeklyTime'', JString ''15''),
            (''education'', JString ''Other''), (''budget'', JString ''free''),
            (''language'', JString ''en'')]
   \<and> map_of [(''name'', JString ''Test User''), (''weeklyTime'', JString ''15''),
            (''education'', JString ''Other''), (''budget'', JString ''free''),
            (''language'', JString ''en'')] ''name'' = Some (JString ''Test User'')
   \<and> map_of [(''name'', JString ''Test User''), (''weeklyTime'', JString ''15''),
            (''education'', JString ''Other''), (''budget'', JString ''free''),
            (''language'', JString ''en'')] ''weeklyTime'' = Some (JString ''15'')
   \<and> validateAndCleanProfile [] [(''weeklyTime'', JNumber (Num 55))]
     = Inr [(''weeklyTime'', JNumber (Num 40)), (''education'', JString ''Other''),
            (''budget'', JString ''free''), (''language'', JString ''en'')]"
proof -
  have a: "validateAndCleanProfile []
      [(''name'', JString ''Test User''), (''weeklyTime'', JString ''15'')]
     = Inr [(''name'', JString ''Test User''), (''weeklyTime'', JString ''15''),
            (''education'', JString ''Other''), (''budget'', JString ''free''),
            (''language'', JString ''en'')]"
    by code_simp
  have b: "validateAndCleanProfile [] [(''weeklyTime'', JNumber (Num 55))]
     = Inr [(''weeklyTime'', JNumber (Num 40)), (''education'', JString ''Other''),
            (''budget'', JString ''free''), (''language'', JString ''en'')]"
    by code_simp
  from validateAndCleanProfile_frame [OF a, of "''name''"]
    validateAndCleanProfile_frame [OF b, of "''name''"] a b
  show ?thesis by (simp add: fieldOf_def)
qed

text \<open>
  What does hold of the bounds and the enumerations: whenever
  \<open>validateAndCleanProfile\<close> returns, a skills array in the result has at most 20
  entries and an interests array at most 10; education, budget and language are members
  of their enumerations; and an input value outside the enumeration is replaced by the
  default (Other, free, en). Lemma \<open>validateAndCleanProfile_returns\<close> above says when it
  returns.
\<close>

theorem validateAndCleanProfile_bounds:
  assumes "validateAndCleanProfile T p = Inr r"
  shows "(\<forall>xs ps. fieldOf r ''skills'' = JArray xs ps \<longrightarrow> length xs \<le> 20)
       \<and> (\<forall>xs ps. fieldOf r ''interests'' = JArray xs ps \<longrightarrow> length xs \<le> 10)
       \<and> fieldOf r ''education'' \<in> JString ` {''12th'', ''Diploma'', ''UG'', ''PG'', ''Other''}
       \<and> fieldOf r ''budget'' \<in> JString ` {''free'', ''low'', ''any''}
       \<and> fieldOf r ''language'' \<in> JString ` {''en'', ''hi''}
       \<and> (fieldOf p ''education'' \<notin> JString ` {''12th'', ''Diploma'', ''UG'', ''PG'', ''Other''}
            \<longrightarrow> fieldOf r ''education'' = JString ''Other'')
       \<and> (fieldOf p ''budget'' \<notin> JString ` {''free'', ''low'', ''any''}
            \<longrightarrow> fieldOf r ''budget'' = JString ''free'')
       \<and> (fieldOf p ''language'' \<notin> JString ` {''en'', ''hi''}
            \<longrightarrow> fieldOf r ''language'' = JString ''en'')"
proof -
  from assms obtain c1 c2 where
    c1: "cleanArrayField T ''skills'' 20 p = Inr c1" and
    c2: "cleanArrayField T ''interests'' 10 c1 = Inr c2" and
    r: "r = coerceEnum ''language'' validLanguage ''en''
              (coerceEnum ''budget'' validBudget ''free''
                (coerceEnum ''education'' validEducation ''Other'' (clampWeeklyTime c2)))"
    by (auto simp: validateAndCleanProfile_def split: sum.splits)
  have frame: "map_of c2 k' = map_of p k'" if "k' \<noteq> ''skills''" "k' \<noteq> ''interests''" for k'
    using that cleanArrayField_other [OF c1, of k'] cleanArrayField_other [OF c2, of k'] by simp
  have sk: "fieldOf r ''skills'' = fieldOf c1 ''skills''"
    unfolding r
    by (rule fieldOf_cong)
       (simp add: coerceEnum_other clampWeeklyTime_other cleanArrayField_other [OF c2])
  have it: "fieldOf r ''interests'' = fieldOf c2 ''interests''"
    unfolding r by (rule fieldOf_cong) (simp add: coerceEnum_other clampWeeklyTime_other)
  have ed0: "fieldOf (clampWeeklyTime c2) ''education'' = fieldOf p ''education''"
    by (rule fieldOf_cong) (simp add: clampWeeklyTime_other frame)
  have bu0: "fieldOf (coerceEnum ''education'' validEducation ''Other'' (clampWeeklyTime c2)) ''budget''
      = fieldOf p ''budget''"
    by (rule fieldOf_cong) (simp add: coerceEnum_other clampWeeklyTime_other frame)
  have la0: "fieldOf (coerceEnum ''budget'' validBudget ''free''
      (coerceEnum ''education'' validEducation ''Other'' (clampWeeklyTime c2))) ''language''
      = fieldOf p ''language''"
    by (rule fieldOf_cong) (simp add: coerceEnum_other clampWeeklyTime_other frame)
  have ed: "fieldOf r ''education'' =
      (if fieldOf p ''education'' \<in> set (map JString validEducation)
       then fieldOf p ''education'' else JString ''Other'')"
  proof -
    have "fieldOf r ''education'' =
        fieldOf (coerceEnum ''education'' validEducation ''Other'' (clampWeeklyTime c2)) ''education''"
      unfolding r by (rule fieldOf_cong) (simp add: coerceEnum_other)
    then show ?thesis by (simp add: coerceEnum_field ed0)
  qed
  have bu: "fieldOf r ''budget'' =
      (if fieldOf p ''budget'' \<in> set (map JString validBudget)
       then fieldOf p ''budget'' else JString ''free'')"
  proof -
    have "fieldOf r ''budget'' =
        fieldOf (coerceEnum ''budget'' validBudget ''free''
          (coerceEnum ''education'' validEducation ''Other'' (clampWeeklyTime c2))) ''budget''"
      unfolding r by (rule fieldOf_cong) (simp add: coerceEnum_other)
    then show ?thesis by (simp add: coerceEnum_field bu0)
  qed
  have la: "fieldOf r ''language'' =
      (if fieldOf p ''language'' \<in> set (map JString validLanguage)
       then fieldOf p ''language'' else JString ''en'')"
    unfolding r by (simp add: coerceEnum_field la0)
  have s1: "\<forall>xs ps. fieldOf r ''skills'' = JArray xs ps \<longrightarrow> length xs \<le> 20"
    unfolding sk using cleanArrayField_bound [OF c1] by blast
  have s2: "\<forall>xs ps. fieldOf r ''interests'' = JArray xs ps \<longrightarrow> length xs \<le> 10"
    unfolding it using cleanArrayField_bound [OF c2] by blast
  have e1: "set (map JString validEducation) = JString ` {''12th'', ''Diploma'', ''UG'', ''PG'', ''Other''}"
    by (simp add: validEducation_def)
  have e2: "set (map JString validBudget) = JString ` {''free'', ''low'', ''any''}"
    by (simp add: validBudget_def)
  have e3: "set (map JString validLanguage) = JString ` {''en'', ''hi''}"
    by (simp add: validLanguage_def)
  have s3: "fieldOf r ''education'' \<in> JString ` {''12th'', ''Diploma'', ''UG'', ''PG'', ''Other''}"
    unfolding ed e1 by simp
  have s4: "fieldOf r ''budget'' \<in> JString ` {''free'', ''low'', ''any''}"
    unfolding bu e2 by simp
  have s5: "fieldOf r ''language'' \<in> JString ` {''en'', ''hi''}"
    unfolding la e3 by simp
  have s6: "fieldOf p ''education'' \<notin> JString ` {''12th'', ''Diploma'', ''UG'', ''PG'', ''Other''}
            \<longrightarrow> fieldOf r ''education'' = JString ''Other''"
    unfolding ed e1 by simp
  have s7: "fieldOf p ''budget'' \<notin> JString ` {''free'', ''low'', ''any''}
            \<longrightarrow> fieldOf r ''budget'' = JString ''free''"
    unfolding bu e2 by simp
  have s8: "fieldOf p ''language'' \<notin> JString ` {''en'', ''hi''}
            \<longrightarrow> fieldOf r ''language'' = JString ''en''"
    unfolding la e3 by simp
  from s1 s2 s3 s4 s5 s6 s7 s8 show ?thesis by blast
qed

theorem validateAndCleanProfile_bounds_witness:
  "validateAndCleanProfile []
      [(''skills'', JArray (replicate 21 (JString ''x'')) []),
       (''interests'', JArray (replicate 11 (JString ''y'')) []),
       (''education'', JString ''PhD'')]
     = Inr [(''skills'', JArray (replicate 20 (JString ''x'')) []),
            (''interests'', JArray (replicate 10 (JString ''y'')) []),
            (''education'', JString ''Other''), (''budget'', JString ''free''),
            (''language'', JString ''en'')]
   \<and> length (replicate 20 (JString ''x'')) \<le> 20
   \<and> length (replicate 10 (JString ''y'')) \<le> 10"
proof -
  have a: "validateAndCleanProfile []
      [(''skills'', JArray (replicate 21 (JString ''x'')) []),
       (''interests'', JArray (replicate 11 (JString ''y'')) []),
       (''education'', JString ''PhD'')]
     = Inr [(''skills'', JArray (replicate 20 (JString ''x'')) []),
            (''interests'', JArray (replicate 10 (JString ''y'')) []),
            (''education'', JString ''Other''), (''budget'', JString ''free''),
            (''language'', JString ''en'')]"
    by code_simp
  from validateAndCleanProfile_bounds [OF a] a show ?thesis
    by (simp add: fieldOf_def)
qed

text \<open>
  C7 fails on the code. For the profile \<open>{skills: ['constructor'], education: 'PhD'}\<close>
  there is no result: the lookup of \<open>constructor\<close> in the alias table finds the
  inherited function \<open>Object\<close>, \<open>sanitizeSkill\<close> calls \<open>substring\<close> on it and throws
  a TypeError before the education is looked at, so the value \<open>PhD\<close>, outside the
  enumeration, is never replaced by \<open>Other\<close>.
\<close>

theorem validateAndCleanProfile_throws:
  "validateAndCleanProfile []
     [(''skills'', JArray [JString ''constructor''] []), (''education'', JString ''PhD'')]
   = Inl TypeError"
  by code_simp

subsection \<open>Plan parser\<close>

text \<open>
  What does hold of the parser: it always returns (the model is a total function whose
  errors all end in the fallback plan), with a \<open>weeks\<close> array of exactly four entries;
  and when the parsed entries are objects, their \<open>week\<close> fields are 1, 2, 3, 4.
\<close>

lemma padWeeks_long: "4 \<le> length ws \<Longrightarrow> padWeeks ws = ws"
  by (subst padWeeks.simps) simp

lemma length_padWeeks: "length ws < 4 \<Longrightarrow> length (padWeeks ws) = 4"
proof (induction ws rule: padWeeks.induct)
  case (1 ws)
  show ?case
  proof (cases "length ws = 3")
    case True
    then show ?thesis by (subst padWeeks.simps) (simp add: padWeeks_long)
  next
    case False
    with "1.prems" have "length (ws @ [JObject [(''week'', JNumber (Num (real (length ws + 1))))]]) < 4"
      by simp
    with "1.IH" "1.prems" show ?thesis by (subst padWeeks.simps) simp
  qed
qed

lemma mapE_length: "mapE f xs = Inr ys \<Longrightarrow> length ys = length xs"
  by (induction xs arbitrary: ys) (auto split: sum.splits)

lemma getField_setField:
  "getField plan k = Inr (JArray ws wps) \<Longrightarrow> setField plan k v = Inr p \<Longrightarrow> getField p k = Inr v"
  by (cases plan) (auto simp: map_of_setProp)

lemma repairPlan_four:
  assumes "repairPlan plan = Inr p"
  shows "\<exists>ws ps. getField p ''weeks'' = Inr (JArray ws ps) \<and> length ws = 4"
proof -
  from assms obtain weeks where w: "getField plan ''weeks'' = Inr weeks"
    by (auto simp: repairPlan_def bindE_def split: sum.splits)
  with assms obtain ws wps where arr: "weeks = JArray ws wps"
    by (cases weeks) (auto simp: repairPlan_def bindE_def)
  define sized where "sized = (if length ws < 4 then (padWeeks ws, wps)
                            else if length ws > 4 then (take 4 ws, [])
                            else (ws, wps))"
  have len: "length (fst sized) = 4"
  proof -
    consider "length ws < 4" | "length ws > 4" | "length ws = 4" by linarith
    then show ?thesis
      by cases (simp_all add: sized_def length_padWeeks)
  qed
  from assms w arr obtain validated where
    v: "mapE (\<lambda>(index, week). validateWeek index week) (enumerate 0 (fst sized)) = Inr validated"
    and s: "setField plan ''weeks'' (JArray validated (snd sized)) = Inr p"
    by (auto simp: repairPlan_def bindE_def sized_def Let_def split: sum.splits if_splits)
  from mapE_length [OF v] len have "length validated = 4" by simp
  moreover from getField_setField [OF w [unfolded arr] s]
  have "getField p ''weeks'' = Inr (JArray validated (snd sized))" .
  ultimately show ?thesis by blast
qed

lemma parseLearningPlan_four_weeks:
  "\<exists>ws ps. getField (parseLearningPlan jsonParse aiResponse) ''weeks'' = Inr (JArray ws ps)
     \<and> length ws = 4"
proof (cases "bindE (jsonParse (extractJsonString aiResponse)) repairPlan")
  case (Inl e)
  then show ?thesis by (simp add: parseLearningPlan_def fallbackPlan_def)
next
  case (Inr p)
  then obtain plan where "repairPlan plan = Inr p"
    by (auto simp: bindE_def split: sum.splits)
  from repairPlan_four [OF this] Inr show ?thesis by (simp add: parseLearningPlan_def)
qed


lemma validateWeek_object:
  "\<exists>ps'. validateWeek i (JObject ps) = Inr (JObject ps')
     \<and> map_of ps' ''week'' = Some (JNumber (Num (real (i + 1))))"
  by (auto simp: validateWeek_def defaultField_def bindE_def map_of_setProp
      split: option.splits)

lemma mapE_nth: "mapE f xs = Inr ys \<Longrightarrow> i < length xs \<Longrightarrow> f (xs ! i) = Inr (ys ! i)"
proof (induction xs arbitrary: ys i)
  case Nil
  then show ?case by simp
next
  case (Cons x xs)
  then show ?case by (cases i) (auto split: sum.splits)
qed

lemma set_padWeeks:
  "w \<in> set (padWeeks ws) \<Longrightarrow> w \<in> set ws \<or> (\<exists>ps. w = JObject ps)"
proof (induction ws rule: padWeeks.induct)
  case (1 ws)
  show ?case
  proof (cases "length ws < 4")
    case True
    with "1.prems" have "w \<in> set (padWeeks (ws @ [JObject [(''week'', JNumber (Num (real (length ws + 1))))]]))"
      by (subst (asm) padWeeks.simps) simp
    with "1.IH" True show ?thesis by auto
  next
    case False
    with "1.prems" show ?thesis by (simp add: padWeeks_long)
  qed
qed

lemma repairPlan_object_weeks:
  assumes r: "repairPlan plan = Inr p"
    and w: "getField plan ''weeks'' = Inr (JArray ws wps)"
    and objs: "\<forall>w \<in> set ws. \<exists>ps. w = JObject ps"
  shows "\<exists>vs ps. getField p ''weeks'' = Inr (JArray vs ps) \<and> length vs = 4
     \<and> (\<forall>i < 4. getField (vs ! i) ''week'' = Inr (JNumber (Num (real (i + 1)))))"
proof -
  define sized where "sized = (if length ws < 4 then (padWeeks ws, wps)
                            else if length ws > 4 then (take 4 ws, [])
                            else (ws, wps))"
  have len: "length (fst sized) = 4"
  proof -
    consider "length ws < 4" | "length ws > 4" | "length ws = 4" by linarith
    then show ?thesis
      by cases (simp_all add: sized_def length_padWeeks)
  qed
  have sobj: "\<exists>ps. x = JObject ps" if "x \<in> set (fst sized)" for x
    using that objs set_padWeeks [of x ws] in_set_takeD [of x 4 ws]
    by (auto simp: sized_def split: if_splits)
  from r w obtain validated where
    v: "mapE (\<lambda>(index, week). validateWeek index week) (enumerate 0 (fst sized)) = Inr validated"
    and s: "setField plan ''weeks'' (JArray validated (snd sized)) = Inr p"
    by (auto simp: repairPlan_def bindE_def sized_def Let_def split: sum.splits if_splits)
  have vlen: "length validated = 4" using mapE_length [OF v] len by simp
  have g: "getField p ''weeks'' = Inr (JArray validated (snd sized))"
    by (rule getField_setField [OF w s])
  have "getField (validated ! i) ''week'' = Inr (JNumber (Num (real (i + 1))))" if i: "i < 4" for i
  proof -
    from i len have il: "i < length (enumerate 0 (fst sized))" by simp
    from mapE_nth [OF v il] i len
    have "validateWeek i (fst sized ! i) = Inr (validated ! i)" by (simp add: nth_enumerate_eq)
    moreover from i len sobj [of "fst sized ! i"] obtain ps where "fst sized ! i = JObject ps"
      by auto
    ultimately show ?thesis using validateWeek_object [of i ps] by auto
  qed
  with g vlen show ?thesis by blast
qed

text \<open>
  C1 fails on the code. For the response \<open>{"weeks":["intro","basics"]}\<close> the parser
  returns four entries, but the first two are the strings themselves: the assignment
  \<open>week.week = index + 1\<close> on a string is dropped, and the entries have no \<open>week\<close>
  field (reading it gives \<open>undefined\<close>), so the week fields are not 1, 2, 3, 4. In the
  statement \<open>JSON.parse\<close> is a function that parses this one text, to the value it
  denotes, and rejects every other.
\<close>

theorem parseLearningPlan_primitive_weeks:
  \<open>parseLearningPlan
     (\<lambda>s. if s = ''{"weeks":["intro","basics"]}''
          then Inr (JObject [(''weeks'', JArray [JString ''intro'', JString ''basics''] [])])
          else Inl SyntaxError)
     ''{"weeks":["intro","basics"]}''
   = JObject [(''weeks'', JArray
       [JString ''intro'', JString ''basics'',
        JObject [(''week'', JNumber (Num 3)),
                 (''topics'', JArray [JString ''Topics to be determined''] []),
                 (''practice'', JArray [JString ''Practice activities to be determined''] []),
                 (''assessment'', JString ''Assessment to be determined''),
                 (''project'', JString ''Project to be determined'')],
        JObject [(''week'', JNumber (Num 4)),
                 (''topics'', JArray [JString ''Topics to be determined''] []),
                 (''practice'', JArray [JString ''Practice activities to be determined''] []),
                 (''assessment'', JString ''Assessment to be determined''),
                 (''project'', JString ''Project to be determined'')]] [])]
   \<and> getField (JString ''intro'') ''week'' = Inr JUndefined
   \<and> getField (JString ''basics'') ''week'' = Inr JUndefined\<close>
  by code_simp

subsection \<open>Failure classification\<close>

text \<open>
  C8, as amended. The status is chosen by the first test that succeeds, in the order
  "API key", "quota", "timeout": a message containing "API key" gets 500 whatever else it
  contains; otherwise one containing "quota" gets 429; otherwise one containing
  "timeout" gets 408; every other message gets 500. Containment is stated with
  \<^const>\<open>sublist\<close>: the pattern, with some text before and after it, is the message.
\<close>

theorem classifyStatus_first_match:
  "classifyStatus m =
     (if sublist ''API key'' m then 500
      else if sublist ''quota'' m then 429
      else if sublist ''timeout'' m then 408 else 500)"
  by (simp add: classifyStatus_def includesStr_sublist)

text \<open>
  C8 as stated fails: the message "API key quota" contains "quota", and the status is
  500, not 429.
\<close>

theorem classifyStatus_quota_counterexample:
  "sublist ''quota'' ''API key quota'' \<and> classifyStatus ''API key quota'' \<noteq> 429"
  by (simp add: classifyStatus_def flip: includesStr_sublist)

end
